theory Spec2Isabelle
  imports Complex_Main
begin

section \<open>Python values shared by both utilities\<close>

text \<open>
  Every way the two scripts stop early is a value of \<open>py_error\<close>: \<open>SysExit n\<close> is
  \<^verbatim>\<open>sys.exit(n)\<close>, \<open>Exception\<close> is \<^verbatim>\<open>raise Exception(msg)\<close> with its message, the
  others are the built-in exceptions of the same name (with the name of the variable or
  key where Python reports one). An exception that reaches the top level ends the process.
\<close>

datatype py_error =
    SysExit int
  | UnboundLocalError string
  | NameError string
  | KeyError string
  | IndexError
  | ValueError
  | TypeError
  | RuntimeError
  | OverflowError
  | OSError
  | Exception string

text \<open>
  Both scripts write to streams and files while they run. A step of a run returns the
  events it added to the trace, in order, and its value or the exception that ended it;
  \<open>bind\<close> runs one step after another and stops at the first exception.
\<close>

type_synonym ('e, 'a) step = "'e list \<times> (py_error + 'a)"

definition bind :: "('e, 'a) step \<Rightarrow> ('a \<Rightarrow> ('e, 'b) step) \<Rightarrow> ('e, 'b) step" where
  "bind m f =
     (case m of
        (tr, Inl e) \<Rightarrow> (tr, Inl e)
      | (tr, Inr x) \<Rightarrow> (case f x of (tr', r) \<Rightarrow> (tr @ tr', r)))"

definition lift :: "py_error + 'a \<Rightarrow> ('e, 'a) step" where
  "lift r = ([], r)"

text \<open>\<^verbatim>\<open>re.search(pat, s)\<close> for a pattern without metacharacters: \<open>pat\<close> occurs in \<open>s\<close>.\<close>

fun starts_with :: "string \<Rightarrow> string \<Rightarrow> bool" where
  "starts_with [] s = True"
| "starts_with (p # ps) [] = False"
| "starts_with (p # ps) (c # cs) = (p = c \<and> starts_with ps cs)"

fun re_search :: "string \<Rightarrow> string \<Rightarrow> bool" where
  "re_search pat [] = (pat = [])"
| "re_search pat (c # cs) = (starts_with pat (c # cs) \<or> re_search pat cs)"

text \<open>\<^verbatim>\<open>str(n)\<close> and \<^verbatim>\<open>'{}'.format(n)\<close> for an integer.\<close>

fun str_nat :: "nat \<Rightarrow> string" where
  "str_nat n =
     (if n < 10 then [char_of (48 + n)]
      else str_nat (n div 10) @ [char_of (48 + n mod 10)])"

declare str_nat.simps [simp del]

definition str_int :: "int \<Rightarrow> string" where
  "str_int i = (if i < 0 then ''-'' @ str_nat (nat (- i)) else str_nat (nat i))"

text \<open>
  \<^verbatim>\<open>repr\<close> of a string of printable ASCII: single quotes, unless the string holds a
  single quote and no double quote; a backslash, and a quote equal to the delimiter, are
  escaped. \<^verbatim>\<open>str\<close> of a list of strings is the \<^verbatim>\<open>repr\<close> of its elements between brackets.
\<close>

fun py_escape :: "char \<Rightarrow> string \<Rightarrow> string" where
  "py_escape q [] = []"
| "py_escape q (c # cs) =
     (if c = CHR 0x5C \<or> c = q then CHR 0x5C # c # py_escape q cs else c # py_escape q cs)"

definition py_repr :: "string \<Rightarrow> string" where
  "py_repr s =
     (if CHR 0x27 \<in> set s \<and> CHR 0x22 \<notin> set s
      then [CHR 0x22] @ py_escape (CHR 0x22) s @ [CHR 0x22]
      else [CHR 0x27] @ py_escape (CHR 0x27) s @ [CHR 0x27])"

fun join :: "string \<Rightarrow> string list \<Rightarrow> string" where
  "join sep [] = []"
| "join sep [x] = x"
| "join sep (x # y # ys) = x @ sep @ join sep (y # ys)"

definition str_list :: "string list \<Rightarrow> string" where
  "str_list xs = ''['' @ join '', '' (map py_repr xs) @ '']''"

section \<open>The model converter (bin/json\_to\_checkpoint.py)\<close>

subsection \<open>JSON input\<close>

text \<open>
  A parameter array of the JSON model: a number, or a list of arrays. The shape of an
  array is the list of its dimensions; a ragged array has none.
\<close>

datatype arr = Num real | Arr "arr list"

fun shape :: "arr \<Rightarrow> nat list option" where
  "shape (Num x) = Some []"
| "shape (Arr []) = Some [0]"
| "shape (Arr (a # as)) =
     (case shape a of
        None \<Rightarrow> None
      | Some d \<Rightarrow> if list_all (\<lambda>b. shape b = Some d) as then Some (Suc (length as) # d) else None)"

text \<open>
  A layer descriptor, a JSON object. Only \<open>type\<close> is read of every descriptor; each
  other key may be absent (\<open>None\<close>), and reading an absent key raises \<open>KeyError\<close>.
  \<open>params\<close> is a dictionary, kept as an association list with distinct keys.
\<close>

datatype sublayer = Sublayer
  (sl_type: string)
  (sl_insize: "int option")
  (sl_size: "int option")
  (sl_activation: "string option")
  (sl_winlen: "int option")
  (sl_stride: "int option")
  (sl_output_alphabet: "string option")
  (sl_can_nmods: "int list option")
  (sl_modified_base_long_names: "string list option")
  (sl_params: "(string \<times> arr) list option")
  (sl_sublayers: "sublayer option")

text \<open>\<^verbatim>\<open>d[key]\<close> on an optional key.\<close>

definition subscript :: "string \<Rightarrow> 'a option \<Rightarrow> py_error + 'a" where
  "subscript key v = (case v of None \<Rightarrow> Inl (KeyError key) | Some x \<Rightarrow> Inr x)"

text \<open>\<^verbatim>\<open>key in d\<close> on a dictionary; \<^verbatim>\<open>d[key]\<close> is then \<open>the (map_of d key)\<close>.\<close>

definition has_key :: "string \<Rightarrow> (string \<times> 'a) list \<Rightarrow> bool" where
  "has_key key d = (map_of d key \<noteq> None)"

subsection \<open>Tensors and layers\<close>

text \<open>
  \<^verbatim>\<open>torch.Tensor(np.concatenate(x))\<close>: \<open>x\<close> is a list of arrays, each with at least one
  dimension, joined along the first axis. \<^verbatim>\<open>torch.Tensor(np.array(x))\<close>: \<open>x\<close> itself.
  Both need a rectangular result.
\<close>

fun children :: "arr \<Rightarrow> arr list option" where
  "children (Num x) = None"
| "children (Arr as) = Some as"

definition rectangular :: "arr \<Rightarrow> py_error + arr" where
  "rectangular a = (if shape a = None then Inl ValueError else Inr a)"

definition np_concatenate :: "arr \<Rightarrow> py_error + arr" where
  "np_concatenate x =
     (case x of
        Num v \<Rightarrow> Inl TypeError
      | Arr gs \<Rightarrow>
          if gs = [] \<or> list_ex (\<lambda>g. children g = None) gs then Inl ValueError
          else rectangular (Arr (concat (map (\<lambda>g. the (children g)) gs))))"

definition np_array :: "arr \<Rightarrow> py_error + arr" where
  "np_array x = rectangular x"

text \<open>
  An instantiated layer: the name of its class and its state dictionary (parameter name
  and current tensor, in the order of \<^verbatim>\<open>state_dict()\<close>).
\<close>

record layer =
  l_class :: string
  state_dict :: "(string \<times> arr) list"

text \<open>
  \<^verbatim>\<open>layer.load_state_dict(params_od, strict=True)\<close>: the keys supplied must be the keys
  required and every tensor must have the shape of the one it replaces, or torch raises
  \<open>RuntimeError\<close>. (It raises no \<open>TypeError\<close> for tensors, so the handler that prints
  the names and shapes before re-raising is not entered.)
\<close>

definition load_state_dict :: "layer \<Rightarrow> (string \<times> arr) list \<Rightarrow> py_error + layer" where
  "load_state_dict l od =
     (if set (map fst od) = set (map fst (state_dict l)) \<and>
         list_all (\<lambda>(k, v). map_option shape (map_of od k) = Some (shape v)) (state_dict l)
      then Inr (l\<lparr>state_dict := map (\<lambda>(k, v). (k, the (map_of od k))) (state_dict l)\<rparr>)
      else Inl RuntimeError)"

subsection \<open>set\_params\<close>

text \<open>\<^verbatim>\<open>od[key] = v\<close> on an \<^verbatim>\<open>OrderedDict\<close>: a new key goes last, an old one keeps its place.\<close>

fun od_set :: "(string \<times> 'a) list \<Rightarrow> string \<Rightarrow> 'a \<Rightarrow> (string \<times> 'a) list" where
  "od_set [] k v = [(k, v)]"
| "od_set ((k', v') # od) k v = (if k' = k then (k, v) # od else (k', v') # od_set od k v)"

definition newline :: string where
  "newline = [CHR 0x0A]"

text \<open>
  The branch chain of one pass of the loop (lines 43 to 65). The local variable
  \<open>jsn_layer_params\<close> is \<open>None\<close> while it is unbound and keeps its value from one pass
  to the next; the chain returns its value after the pass. The first branch assigns
  \<open>jsn_name\<close>, which nothing reads, and the \<open>bias_hh\<close> branch is \<^verbatim>\<open>pass\<close>: both leave
  \<open>jsn_layer_params\<close> as it was. The last branch writes the message to the error stream
  and exits; the message comes with the error.
\<close>

definition guess_params ::
  "(string \<times> arr) list \<Rightarrow> arr option \<Rightarrow> string \<Rightarrow> (string \<times> py_error) + arr option" where
  "guess_params jsn_params jsn_layer_params layer_name =
     (let conv = (\<lambda>r. case r of Inl e \<Rightarrow> Inl ([], e) | Inr t \<Rightarrow> Inr (Some t)) in
      if has_key layer_name jsn_params then Inr jsn_layer_params
      else if re_search ''weight_ih'' layer_name \<and> has_key ''iW'' jsn_params
        then conv (np_concatenate (the (map_of jsn_params ''iW'')))
      else if re_search ''weight_hh'' layer_name \<and> has_key ''sW'' jsn_params
        then conv (np_concatenate (the (map_of jsn_params ''sW'')))
      else if re_search ''bias_ih'' layer_name \<and> has_key ''b'' jsn_params
        then conv (np_concatenate (the (map_of jsn_params ''b'')))
      else if re_search ''bias_hh'' layer_name then Inr jsn_layer_params
      else if re_search ''weight'' layer_name \<and> has_key ''W'' jsn_params
        then conv (np_array (the (map_of jsn_params ''W'')))
      else if re_search ''bias'' layer_name \<and> has_key ''b'' jsn_params
        then conv (np_array (the (map_of jsn_params ''b'')))
      else Inl (''Incompatible layer parameter type ('' @ layer_name @ '') encountered.'' @ newline,
                SysExit 1))"

text \<open>
  The loop over the names of the layer's state dictionary: after the branch chain, line 69
  reads \<open>jsn_layer_params\<close> (\<open>UnboundLocalError\<close> while it is unbound) and stores it
  under the name.
\<close>

fun set_params_loop ::
  "(string \<times> arr) list \<Rightarrow> string list \<Rightarrow> (string \<times> arr) list \<Rightarrow> arr option \<Rightarrow>
   (string \<times> py_error) + (string \<times> arr) list" where
  "set_params_loop jsn_params [] params_od jsn_layer_params = Inr params_od"
| "set_params_loop jsn_params (layer_name # names) params_od jsn_layer_params =
     (case guess_params jsn_params jsn_layer_params layer_name of
        Inl e \<Rightarrow> Inl e
      | Inr None \<Rightarrow> Inl ([], UnboundLocalError ''jsn_layer_params'')
      | Inr (Some t) \<Rightarrow> set_params_loop jsn_params names (od_set params_od layer_name t) (Some t))"

text \<open>
  \<open>set_params\<close> returns what it wrote to the error stream together with the error, or
  the layer with its parameters loaded.
\<close>

definition set_params :: "layer \<Rightarrow> (string \<times> arr) list \<Rightarrow> (string \<times> py_error) + layer" where
  "set_params l jsn_params =
     (case set_params_loop jsn_params (map fst (state_dict l)) [] None of
        Inl e \<Rightarrow> Inl e
      | Inr params_od \<Rightarrow>
          (case load_state_dict l params_od of Inl e \<Rightarrow> Inl ([], e) | Inr l' \<Rightarrow> Inr l'))"

subsection \<open>The taiyaki library\<close>

text \<open>
  The layer classes, \<open>nbase_flipflop\<close>, \<open>AlphabetInfo\<close> and \<open>Serial\<close> belong to the
  taiyaki package and \<^verbatim>\<open>torch.save\<close> to torch; the converter only calls them. They are
  parameters of the model: each call returns its object or the exception it raises.
\<close>

record alphabet_info =
  alphabet :: string
  collapse_alphabet :: string
  mod_long_names :: "string list"

record taiyaki =
  Convolution :: "int \<Rightarrow> int \<Rightarrow> int \<Rightarrow> int \<Rightarrow> py_error + layer"
  GruMod :: "int \<Rightarrow> int \<Rightarrow> py_error + layer"
  Reverse :: "layer \<Rightarrow> py_error + layer"
  GlobalNormFlipFlop :: "int \<Rightarrow> int \<Rightarrow> py_error + layer"
  GlobalNormFlipFlopCatMod :: "int \<Rightarrow> alphabet_info \<Rightarrow> py_error + layer"
  nbase_flipflop :: "int \<Rightarrow> py_error + int"
  AlphabetInfo :: "string \<Rightarrow> string \<Rightarrow> string list \<Rightarrow> py_error + alphabet_info"
  Serial :: "layer list \<Rightarrow> py_error + layer"
  torch_save :: "layer \<Rightarrow> py_error + unit"

subsection \<open>What a run does, in order\<close>

text \<open>
  A run of the converter leaves a trace: the messages written to the error stream, the
  layer classes whose constructor it called, and the network it wrote as a checkpoint.
  Each part of the run is a step over these events.
\<close>

datatype event = Stderr string | Construct string | Saved layer

definition write_stderr :: "string \<Rightarrow> (event, unit) step" where
  "write_stderr msg = ([Stderr msg], Inr ())"

definition construct :: "string \<Rightarrow> py_error + layer \<Rightarrow> (event, layer) step" where
  "construct cls r = ([Construct cls], r)"

definition tab :: string where
  "tab = [CHR 0x09]"

subsection \<open>parse\_sublayer\<close>

text \<open>
  \<^verbatim>\<open>s[i]\<close> on a string: a negative index counts from the end, an index out of range
  raises \<open>IndexError\<close>. \<^verbatim>\<open>c * n\<close> is \<open>n\<close> copies of the character, none when \<open>n \<le> 0\<close>.
\<close>

definition str_index :: "string \<Rightarrow> int \<Rightarrow> py_error + char" where
  "str_index s i =
     (if 0 \<le> i \<and> i < int (length s) then Inr (s ! nat i)
      else if i < 0 \<and> - i \<le> int (length s) then Inr (s ! nat (int (length s) + i))
      else Inl IndexError)"

definition str_times :: "char \<Rightarrow> int \<Rightarrow> string" where
  "str_times c n = replicate (nat n) c"

text \<open>The loop of lines 117 to 122, which derives the collapse alphabet.\<close>

fun collapse_loop :: "string \<Rightarrow> int list \<Rightarrow> int \<Rightarrow> string \<Rightarrow> py_error + string" where
  "collapse_loop output_alphabet [] curr_can_base collapse = Inr collapse"
| "collapse_loop output_alphabet (can_i_nmod # rest) curr_can_base collapse =
     (case str_index output_alphabet curr_can_base of
        Inl e \<Rightarrow> Inl e
      | Inr c \<Rightarrow>
          collapse_loop output_alphabet rest (curr_can_base + (can_i_nmod + 1))
            (collapse @ str_times c (can_i_nmod + 1)))"

definition derive_collapse_alphabet :: "string \<Rightarrow> int list \<Rightarrow> py_error + string" where
  "derive_collapse_alphabet output_alphabet can_nmods =
     collapse_loop output_alphabet can_nmods 0 []"

text \<open>
  The layer of each branch of lines 82 to 130, before its parameters are set. The
  \<open>reverse\<close> branch rebinds \<open>sublayer\<close> to the inner descriptor, so the branch returns
  the descriptor whose \<open>params\<close> line 132 reads. A type that matches no branch leaves
  \<open>layer\<close> unbound, which line 132 reads.
\<close>

definition make_layer :: "taiyaki \<Rightarrow> sublayer \<Rightarrow> (event, layer \<times> sublayer) step" where
  "make_layer lib sublayer =
     (if sl_type sublayer = ''convolution'' then
        bind (lift (subscript ''activation'' (sl_activation sublayer))) (\<lambda>act.
        if act \<noteq> ''tanh'' then
          bind (write_stderr (''Incompatible convolutional layer activation fucntion ('' @
                  sl_type sublayer @ '') encountered.'' @ newline)) (\<lambda>_.
          lift (Inl (SysExit 1)))
        else
          bind (lift (subscript ''insize'' (sl_insize sublayer))) (\<lambda>insize.
          bind (lift (subscript ''size'' (sl_size sublayer))) (\<lambda>size.
          bind (lift (subscript ''winlen'' (sl_winlen sublayer))) (\<lambda>winlen.
          bind (lift (subscript ''stride'' (sl_stride sublayer))) (\<lambda>stride.
          bind (write_stderr (''Loading convolutional layer with attributes:'' @ newline @
                  tab @ ''in size: '' @ str_int insize @ newline @
                  tab @ ''out size: '' @ str_int size @ newline @
                  tab @ ''winlen: '' @ str_int winlen @ newline @
                  tab @ ''stride: '' @ str_int stride @ newline)) (\<lambda>_.
          bind (construct ''Convolution'' (Convolution lib insize size winlen stride)) (\<lambda>l.
          lift (Inr (l, sublayer)))))))))
      else if sl_type sublayer = ''GruMod'' then
        bind (lift (subscript ''insize'' (sl_insize sublayer))) (\<lambda>insize.
        bind (lift (subscript ''size'' (sl_size sublayer))) (\<lambda>size.
        bind (write_stderr (''Loading GRU layer with attributes:'' @ newline @
                tab @ ''in size: '' @ str_int insize @ newline @
                tab @ ''out size: '' @ str_int size @ newline)) (\<lambda>_.
        bind (construct ''GruMod'' (GruMod lib insize size)) (\<lambda>l.
        lift (Inr (l, sublayer))))))
      else if sl_type sublayer = ''reverse'' then
        bind (lift (subscript ''sublayers'' (sl_sublayers sublayer))) (\<lambda>inner.
        bind (lift (subscript ''insize'' (sl_insize inner))) (\<lambda>insize.
        bind (lift (subscript ''size'' (sl_size inner))) (\<lambda>size.
        bind (write_stderr (''Loading Reverse GRU layer with attributes:'' @ newline @
                tab @ ''in size: '' @ str_int insize @ newline @
                tab @ ''out size: '' @ str_int size @ newline)) (\<lambda>_.
        bind (construct ''GruMod'' (GruMod lib insize size)) (\<lambda>g.
        bind (construct ''Reverse'' (Reverse lib g)) (\<lambda>l.
        lift (Inr (l, inner))))))))
      else if sl_type sublayer = ''GlobalNormTwoState'' then
        bind (lift (subscript ''size'' (sl_size sublayer))) (\<lambda>size.
        bind (lift (nbase_flipflop lib size)) (\<lambda>nbase.
        bind (lift (subscript ''insize'' (sl_insize sublayer))) (\<lambda>insize.
        bind (write_stderr (''Loading flip-flop layer with attributes:'' @ newline @
                tab @ ''in size: '' @ str_int insize @ newline @
                tab @ ''nbases: '' @ str_int nbase @ newline)) (\<lambda>_.
        bind (construct ''GlobalNormFlipFlop'' (GlobalNormFlipFlop lib insize nbase)) (\<lambda>l.
        lift (Inr (l, sublayer)))))))
      else if sl_type sublayer = ''GlobalNormTwoStateCatMod'' then
        bind (lift (subscript ''output_alphabet'' (sl_output_alphabet sublayer))) (\<lambda>output_alphabet.
        bind (lift (subscript ''can_nmods'' (sl_can_nmods sublayer))) (\<lambda>can_nmods.
        bind (lift (derive_collapse_alphabet output_alphabet can_nmods)) (\<lambda>collapse.
        bind (lift (subscript ''modified_base_long_names''
                (sl_modified_base_long_names sublayer))) (\<lambda>long_names.
        bind (lift (AlphabetInfo lib output_alphabet collapse long_names)) (\<lambda>info.
        bind (lift (subscript ''insize'' (sl_insize sublayer))) (\<lambda>insize.
        bind (write_stderr (''Loading modified bases flip-flop layer with attributes:'' @ newline @
                tab @ ''in size: '' @ str_int insize @ newline @
                tab @ ''mod bases: '' @ str_list (mod_long_names info) @ newline)) (\<lambda>_.
        bind (construct ''GlobalNormFlipFlopCatMod''
                (GlobalNormFlipFlopCatMod lib insize info)) (\<lambda>l.
        lift (Inr (l, sublayer))))))))))
      else lift (Inl (UnboundLocalError ''layer'')))"

text \<open>
  Line 132: read the descriptor's \<open>params\<close> and set them; what \<open>set_params\<close> wrote to
  the error stream before an exit joins the trace.
\<close>

definition parse_sublayer :: "taiyaki \<Rightarrow> sublayer \<Rightarrow> (event, layer) step" where
  "parse_sublayer lib sublayer =
     bind (make_layer lib sublayer) (\<lambda>(l, sl).
     bind (lift (subscript ''params'' (sl_params sl))) (\<lambda>jsn_params.
     (case set_params l jsn_params of
        Inl (msg, e) \<Rightarrow> (if msg = [] then [] else [Stderr msg], Inl e)
      | Inr l' \<Rightarrow> lift (Inr l'))))"

subsection \<open>main\<close>

definition COMPATIBLE_LAYERS :: "string set" where
  "COMPATIBLE_LAYERS =
     {''convolution'', ''GruMod'', ''reverse'', ''GlobalNormTwoState'',
      ''GlobalNormTwoStateCatMod''}"

fun parse_all :: "taiyaki \<Rightarrow> sublayer list \<Rightarrow> (event, layer list) step" where
  "parse_all lib [] = lift (Inr [])"
| "parse_all lib (sublayer # rest) =
     bind (parse_sublayer lib sublayer) (\<lambda>l.
     bind (parse_all lib rest) (\<lambda>ls.
     lift (Inr (l # ls))))"

text \<open>
  The types outside the compatible set, each once: \<^verbatim>\<open>set(layer_types).difference(...)\<close>.
  Python fixes no order for the elements of a set; the model lists them in the order of
  their first occurrence.
\<close>

definition incompatible_types :: "sublayer list \<Rightarrow> string list" where
  "incompatible_types sublayers =
     remdups (filter (\<lambda>t. t \<notin> COMPATIBLE_LAYERS) (map sl_type sublayers))"

text \<open>
  \<open>main\<close>, from the parsed JSON model (the list under its key \<open>sublayers\<close>) on: the
  check of the layer types, the layers, the composite network, the checkpoint.
\<close>

definition main :: "taiyaki \<Rightarrow> sublayer list \<Rightarrow> (event, unit) step" where
  "main lib sublayers =
     (if length (incompatible_types sublayers) > 0 then
        bind (write_stderr (''Incompatible layer type(s) ('' @
                join '', '' (incompatible_types sublayers) @ '') encountered.'' @ newline)) (\<lambda>_.
        lift (Inl (SysExit 1)))
      else
        bind (parse_all lib sublayers) (\<lambda>layers.
        bind (lift (Serial lib layers)) (\<lambda>network.
        bind (lift (torch_save lib network)) (\<lambda>_.
        ([Saved network], Inr ())))))"

section \<open>The q-score calibrator (misc/calibrate\_qscores\_byread.py)\<close>

subsection \<open>Numbers\<close>

text \<open>
  A float of numpy is a binary64 number: the real number it denotes, or one of the
  special values: not a number, which is how a missing accuracy is written, and the two
  infinities. The sign of a zero is not modelled. Comparisons with \<open>NaN\<close> are false,
  and arithmetic keeps it.
\<close>

datatype f64 = NaN | NegInf | Fin real | PosInf

text \<open>
  Rounding to the nearest float, a tie going to the even significand. The floats around
  \<open>x\<close> are the multiples of \<open>ulp x\<close>: the significand has 53 bits, and the exponent
  does not go below \<open>-1022\<close>. A result that rounds to \<open>2 ^ 1024\<close> or beyond is an
  infinity.
\<close>

definition round_half_even :: "real \<Rightarrow> int" where
  "round_half_even y =
     (let n = \<lfloor>y\<rfloor> in
      if y - of_int n < 1 / 2 then n
      else if 1 / 2 < y - of_int n then n + 1
      else if even n then n else n + 1)"

definition ulp :: "real \<Rightarrow> real" where
  "ulp x = 2 powr (of_int (max \<lfloor>log 2 \<bar>x\<bar>\<rfloor> (- 1022)) - 52)"

definition round64 :: "real \<Rightarrow> real" where
  "round64 x = (if x = 0 then 0 else ulp x * of_int (round_half_even (x / ulp x)))"

definition to_f64 :: "real \<Rightarrow> f64" where
  "to_f64 x =
     (let r = round64 x in
      if 2 ^ 1024 \<le> r then PosInf else if r \<le> - (2 ^ 1024) then NegInf else Fin r)"

fun f64_lt :: "f64 \<Rightarrow> f64 \<Rightarrow> bool" where
  "f64_lt (Fin x) (Fin y) = (x < y)"
| "f64_lt NegInf (Fin y) = True"
| "f64_lt NegInf PosInf = True"
| "f64_lt (Fin x) PosInf = True"
| "f64_lt a b = False"

definition f64_le :: "f64 \<Rightarrow> f64 \<Rightarrow> bool" where
  "f64_le a b = (a \<noteq> NaN \<and> b \<noteq> NaN \<and> (a = b \<or> f64_lt a b))"

fun f64_neg :: "f64 \<Rightarrow> f64" where
  "f64_neg NaN = NaN"
| "f64_neg NegInf = PosInf"
| "f64_neg (Fin x) = Fin (- x)"
| "f64_neg PosInf = NegInf"

fun f64_add :: "f64 \<Rightarrow> f64 \<Rightarrow> f64" where
  "f64_add (Fin x) (Fin y) = to_f64 (x + y)"
| "f64_add NaN b = NaN"
| "f64_add a NaN = NaN"
| "f64_add PosInf NegInf = NaN"
| "f64_add NegInf PosInf = NaN"
| "f64_add PosInf b = PosInf"
| "f64_add a PosInf = PosInf"
| "f64_add NegInf b = NegInf"
| "f64_add a NegInf = NegInf"

definition f64_sub :: "f64 \<Rightarrow> f64 \<Rightarrow> f64" where
  "f64_sub a b = f64_add a (f64_neg b)"

fun f64_mul :: "f64 \<Rightarrow> f64 \<Rightarrow> f64" where
  "f64_mul (Fin x) (Fin y) = to_f64 (x * y)"
| "f64_mul NaN b = NaN"
| "f64_mul a NaN = NaN"
| "f64_mul (Fin x) b =
     (if x = 0 then NaN else if (0 < x) = (b = PosInf) then PosInf else NegInf)"
| "f64_mul a (Fin y) =
     (if y = 0 then NaN else if (0 < y) = (a = PosInf) then PosInf else NegInf)"
| "f64_mul a b = (if a = b then PosInf else NegInf)"

text \<open>
  numpy divides by zero: the quotient is an infinity, or \<open>NaN\<close> for zero by zero. A
  zero divisor counts as positive, which it is where the script divides by a length.
\<close>

fun f64_div :: "f64 \<Rightarrow> f64 \<Rightarrow> f64" where
  "f64_div (Fin x) (Fin y) =
     (if y = 0 then (if 0 < x then PosInf else if x < 0 then NegInf else NaN)
      else to_f64 (x / y))"
| "f64_div NaN b = NaN"
| "f64_div a NaN = NaN"
| "f64_div (Fin x) b = Fin 0"
| "f64_div a (Fin y) = (if (0 \<le> y) = (a = PosInf) then PosInf else NegInf)"
| "f64_div a b = NaN"

text \<open>\<^verbatim>\<open>a.astype(np.float64) / b.astype(np.float64)\<close> on integers.\<close>

definition f64_div_int :: "int \<Rightarrow> int \<Rightarrow> f64" where
  "f64_div_int a b = f64_div (to_f64 (of_int a)) (to_f64 (of_int b))"

text \<open>
  Storing a float into an array of 64-bit integers, as \<open>merge_align_fastq_data\<close> does
  with a length: the fraction is dropped; a value that is no number, or whose whole part
  is outside the range of the integers, cannot be stored.
\<close>

fun int_of_f64 :: "f64 \<Rightarrow> py_error + int" where
  "int_of_f64 (Fin x) =
     (let t = (if 0 \<le> x then \<lfloor>x\<rfloor> else \<lceil>x\<rceil>)
      in if - (2 ^ 63) \<le> t \<and> t < 2 ^ 63 then Inr t else Inl OverflowError)"
| "int_of_f64 NaN = Inl ValueError"
| "int_of_f64 a = Inl OverflowError"

text \<open>Sequencing of computations that write nothing.\<close>

definition ebind :: "py_error + 'a \<Rightarrow> ('a \<Rightarrow> py_error + 'b) \<Rightarrow> py_error + 'b" where
  "ebind m f = (case m of Inl e \<Rightarrow> Inl e | Inr x \<Rightarrow> f x)"

text \<open>
  numpy on arrays of one dimension. An element-wise operation needs two arrays of one
  length, or one of them of length 1, which is then used for every element. Indexing by
  an array of booleans needs a mask as long as the array and keeps the elements where
  the mask is true, in order.
\<close>

definition broadcast2 :: "('a \<Rightarrow> 'b \<Rightarrow> 'c) \<Rightarrow> 'a list \<Rightarrow> 'b list \<Rightarrow> py_error + 'c list" where
  "broadcast2 f xs ys =
     (if length xs = length ys then Inr (map2 f xs ys)
      else if length xs = 1 then Inr (map (f (hd xs)) ys)
      else if length ys = 1 then Inr (map (\<lambda>x. f x (hd ys)) xs)
      else Inl ValueError)"

definition bool_index :: "'a list \<Rightarrow> bool list \<Rightarrow> py_error + 'a list" where
  "bool_index xs msk =
     (if length msk = length xs then Inr (map fst (filter snd (zip xs msk)))
      else Inl IndexError)"

text \<open>
  \<^verbatim>\<open>np.argmax\<close> keeps the first element as the maximum so far and replaces it by each
  later element that is not less than or equal to it; it stops at a \<open>NaN\<close>. So it
  returns the place of the first \<open>NaN\<close> if there is one, else of the first maximum.
\<close>

fun argmax_from :: "f64 list \<Rightarrow> nat \<Rightarrow> f64 \<Rightarrow> nat \<Rightarrow> nat" where
  "argmax_from [] i mp best = best"
| "argmax_from (x # xs) i mp best =
     (if mp = NaN then best
      else if \<not> f64_le x mp then argmax_from xs (Suc i) x i
      else argmax_from xs (Suc i) mp best)"

fun argmax :: "f64 list \<Rightarrow> py_error + nat" where
  "argmax [] = Inl ValueError"
| "argmax (x # xs) = Inr (argmax_from xs 1 x 0)"

subsection \<open>Output and the outside world\<close>

text \<open>
  What the calibrator writes: text on standard output, calls of the plotting library, and
  the plot file. Text is a list of pieces, a string or a float under its format
  specification (the digits of a float are not modelled).
\<close>

datatype tok = S string | F string f64

datatype cal_event = Stdout "tok list" | Plot string | Savefig string

text \<open>\<^verbatim>\<open>print(s)\<close> of one string, given by its pieces: the string and a newline.\<close>

definition print :: "tok list \<Rightarrow> (cal_event, unit) step" where
  "print s = ([Stdout (s @ [S newline])], Inr ())"

text \<open>
  Modelled from the spec: the table that \<open>taiyaki.fileio.readtsv\<close> returns (the function
  is not among the sources). It is a list of named columns of one length, in the order of
  the file; a cell is known by its text and by the number it denotes (\<open>NaN\<close> when it
  denotes none). The identifier columns are read as text and the others as numbers.
\<close>

record cell =
  cell_text :: string
  cell_number :: f64

type_synonym table = "(string \<times> cell list) list"

text \<open>
  What numpy leaves to the platform is a parameter: the values of \<^verbatim>\<open>np.power\<close> and
  \<^verbatim>\<open>np.log10\<close>, which come from the mathematical library and need not be the floats
  nearest to the exact values, and the order in which \<^verbatim>\<open>np.sum\<close> adds an array of a
  given length (numpy adds in blocks, not from left to right), written as the tree of
  the additions over the places of the array; a place outside the array adds zero.
\<close>

datatype summation = Elem nat | Plus summation summation

record numpy =
  np_power :: "f64 \<Rightarrow> f64 \<Rightarrow> f64"
  np_log10 :: "f64 \<Rightarrow> f64"
  np_sum_order :: "nat \<Rightarrow> summation"

fun sum_by :: "f64 list \<Rightarrow> summation \<Rightarrow> f64" where
  "sum_by xs (Elem i) = (if i < length xs then xs ! i else Fin 0)"
| "sum_by xs (Plus a b) = f64_add (sum_by xs a) (sum_by xs b)"

text \<open>
  \<^verbatim>\<open>np.mean\<close>: the sum, which is zero for no elements, divided by the number of
  elements as a float.
\<close>

definition np_mean :: "numpy \<Rightarrow> f64 list \<Rightarrow> f64" where
  "np_mean lib xs =
     f64_div (if xs = [] then Fin 0 else sum_by xs (np_sum_order lib (length xs)))
             (to_f64 (real (length xs)))"

text \<open>
  The rest of the world is a parameter too: numpy, the directory listing and path joining
  of \<open>os\<close>, the fastq parser (the identifier and the quality values of each record of a
  file), \<open>readtsv\<close>, the robust regression of statsmodels (it returns the intercept and
  the slope), and the writing of the figure.
\<close>

record world =
  np :: numpy
  listdir :: "string \<Rightarrow> py_error + string list"
  path_join :: "string \<Rightarrow> string \<Rightarrow> string"
  SeqIO_parse :: "string \<Rightarrow> py_error + (string \<times> int list) list"
  readtsv :: "string \<Rightarrow> py_error + table"
  RLM_fit :: "f64 list \<Rightarrow> f64 list \<Rightarrow> py_error + (f64 \<times> f64)"
  savefig :: "string \<Rightarrow> py_error + unit"

subsection \<open>fastq\_file\_qscore and read\_fastqs\<close>

text \<open>
  Lines 66 to 69: the error probability at each place, their mean, and the mean as a
  quality score. The division by ten, the power, the additions and the division of the
  mean, the logarithm and the product each round.
\<close>

definition fastq_file_qscore :: "numpy \<Rightarrow> int list \<Rightarrow> f64" where
  "fastq_file_qscore lib qvector =
     (let p = map (\<lambda>q. np_power lib (Fin 10) (f64_div (f64_neg (to_f64 (of_int q))) (Fin 10)))
                qvector;
          e = np_mean lib p
      in f64_mul (Fin (- 10)) (np_log10 lib e))"

text \<open>A read: its identifier, its mean quality score (Python's \<open>None\<close> for no values), its length.\<close>

type_synonym read = "string \<times> f64 option \<times> int"

definition reads_per_dot :: int where
  "reads_per_dot = 100"

definition reached :: "int option \<Rightarrow> read list \<Rightarrow> bool" where
  "reached maxreads reads =
     (case maxreads of None \<Rightarrow> False | Some m \<Rightarrow> m \<le> int (length reads))"

text \<open>The inner loop, over the records of one file; it ends early at \<open>maxreads\<close>.\<close>

fun read_records ::
  "numpy \<Rightarrow> int option \<Rightarrow> (string \<times> int list) list \<Rightarrow> read list \<Rightarrow>
   cal_event list \<times> read list" where
  "read_records lib maxreads [] reads = ([], reads)"
| "read_records lib maxreads ((rid, scores) # rest) reads =
     (let reads' = reads @
            [(rid, if 0 < length scores then Some (fastq_file_qscore lib scores) else None,
              int (length scores))];
          dot = (if (int (length reads') + 1) mod reads_per_dot = 0
                 then [Stdout [S ''.'']] else [])
      in if reached maxreads reads' then (dot, reads')
         else (case read_records lib maxreads rest reads' of (ev, rs) \<Rightarrow> (dot @ ev, rs)))"

text \<open>The outer loop, over the files (a file that cannot be parsed ends the run).\<close>

fun read_files ::
  "world \<Rightarrow> int option \<Rightarrow> string list \<Rightarrow> read list \<Rightarrow> (cal_event, read list) step" where
  "read_files w maxreads [] reads = lift (Inr reads)"
| "read_files w maxreads (fastqfile # rest) reads =
     bind (lift (SeqIO_parse w fastqfile)) (\<lambda>records.
     (case read_records (np w) maxreads records reads of (ev, reads') \<Rightarrow>
        bind (ev, Inr ()) (\<lambda>_.
        if reached maxreads reads' then lift (Inr reads')
        else read_files w maxreads rest reads')))"

definition read_fastqs ::
  "world \<Rightarrow> string list \<Rightarrow> int option \<Rightarrow>
   (cal_event, string list \<times> f64 option list \<times> int list) step" where
  "read_fastqs w fastqlist maxreads =
     bind (print [S (''Printing one dot for every '' @ str_int reads_per_dot @ '' reads.'')]) (\<lambda>_.
     bind (read_files w maxreads fastqlist []) (\<lambda>reads.
     bind (print [S []]) (\<lambda>_.
     lift (Inr (map fst reads, map (\<lambda>r. fst (snd r)) reads, map (\<lambda>r. snd (snd r)) reads)))))"

subsection \<open>get\_alignment\_data\<close>

text \<open>\<^verbatim>\<open>t[name]\<close>: numpy raises \<open>ValueError\<close> for a field the table does not have.\<close>

definition field :: "table \<Rightarrow> string \<Rightarrow> py_error + cell list" where
  "field t name = (case map_of t name of None \<Rightarrow> Inl ValueError | Some c \<Rightarrow> Inr c)"

text \<open>
  The body of the first \<^verbatim>\<open>try\<close> (lines 139 to 145), in the order in which Python reads
  the fields; negative accuracies become \<open>NaN\<close>.
\<close>

definition read_guppy :: "table \<Rightarrow> py_error + (string list \<times> f64 list \<times> f64 list)" where
  "read_guppy t =
     ebind (field t ''read_id'') (\<lambda>read_ids.
     ebind (field t ''alignment_accuracy'') (\<lambda>accuracies.
     ebind (field t ''alignment_strand_end'') (\<lambda>strand_end.
     ebind (field t ''alignment_strand_start'') (\<lambda>strand_start.
     Inr (map cell_text read_ids,
          map (\<lambda>c. if f64_lt (cell_number c) (Fin 0) then NaN else cell_number c) accuracies,
          map2 (\<lambda>e s. f64_sub (cell_number e) (cell_number s)) strand_end strand_start)))))"

text \<open>
  The body of the second \<^verbatim>\<open>try\<close> (lines 152 to 160). Python evaluates
  \<^verbatim>\<open>t['reference_end'] - t['reference_start'] + t['insertion'] - t['deletion']\<close> from
  left to right, so the fields are read in this order.
\<close>

definition read_taiyaki :: "table \<Rightarrow> py_error + (string list \<times> f64 list \<times> f64 list)" where
  "read_taiyaki t =
     ebind (field t ''query'') (\<lambda>read_ids.
     ebind (field t ''accuracy'') (\<lambda>accuracies.
     ebind (field t ''reference_end'') (\<lambda>reference_end.
     ebind (field t ''reference_start'') (\<lambda>reference_start.
     ebind (field t ''insertion'') (\<lambda>insertion.
     ebind (field t ''deletion'') (\<lambda>deletion.
     Inr (map cell_text read_ids,
          map cell_number accuracies,
          map2 (\<lambda>(e, s) (i, d).
                  f64_sub (f64_add (f64_sub (cell_number e) (cell_number s)) (cell_number i)) (cell_number d))
            (zip reference_end reference_start) (zip insertion deletion))))))))"

definition schema_message :: string where
  "schema_message =
     ''Alignment summary file must contain either columns '' @
     ''(read_ids, alignment accuracy, alignment_strand_end, '' @
     ''alignment_strand_start) or '' @
     ''(id, accuracy, reference_end, reference_start, '' @
     ''insertion, deletion  )''"

text \<open>
  Each \<^verbatim>\<open>try\<close> returns when its body succeeds, after printing which format it found,
  and passes on \<open>ValueError\<close> only. After both, line 165 raises the exception whose message
  ends with the list of the table's column names.
\<close>

definition alignment_columns ::
  "table \<Rightarrow> (cal_event, string list \<times> f64 list \<times> f64 list) step" where
  "alignment_columns t =
     (case read_guppy t of
        Inr r \<Rightarrow> bind (print [S ''Interpreted alignment file as Guppy output'']) (\<lambda>_. lift (Inr r))
      | Inl e \<Rightarrow>
          if e \<noteq> ValueError then lift (Inl e)
          else
            (case read_taiyaki t of
               Inr r \<Rightarrow>
                 bind (print [S ''Interpreted alignment file as Taiyaki output'']) (\<lambda>_. lift (Inr r))
             | Inl e' \<Rightarrow>
                 if e' \<noteq> ValueError then lift (Inl e')
                 else lift (Inl (Exception
                        (schema_message @ ''. Columns are '' @ str_list (map fst t))))))"

definition get_alignment_data ::
  "world \<Rightarrow> string \<Rightarrow> (cal_event, string list \<times> f64 list \<times> f64 list) step" where
  "get_alignment_data w alignment_file =
     bind (lift (readtsv w alignment_file)) (\<lambda>t. alignment_columns t)"

subsection \<open>merge\_align\_fastq\_data\<close>

text \<open>
  The loop of lines 208 to 220 over the fastq identifiers, \<open>nread\<close> counting them. Its
  state is the two result arrays and the two counters. Both selections use the mask
  \<^verbatim>\<open>alignment_ids == fastq_id\<close>.
\<close>

fun merge_loop ::
  "string list \<Rightarrow> nat \<Rightarrow> string list \<Rightarrow> f64 list \<Rightarrow> f64 list \<Rightarrow>
   f64 list \<times> int list \<times> nat \<times> nat \<Rightarrow> py_error + f64 list \<times> int list \<times> nat \<times> nat" where
  "merge_loop [] nread alignment_ids alignment_accuracies alignment_lens st = Inr st"
| "merge_loop (fastq_id # rest) nread alignment_ids alignment_accuracies alignment_lens
     (fastq_accuracies, fastq_alignment_lens, read_not_found, more_than_one_alignment) =
     ebind (bool_index alignment_accuracies (map (\<lambda>i. i = fastq_id) alignment_ids)) (\<lambda>accuracies.
     ebind (bool_index alignment_lens (map (\<lambda>i. i = fastq_id) alignment_ids)) (\<lambda>lens.
     if length accuracies = 0 then
       merge_loop rest (Suc nread) alignment_ids alignment_accuracies alignment_lens
         (fastq_accuracies, fastq_alignment_lens, Suc read_not_found, more_than_one_alignment)
     else if length accuracies = 1 then
       ebind (int_of_f64 (lens ! 0)) (\<lambda>l.
       merge_loop rest (Suc nread) alignment_ids alignment_accuracies alignment_lens
         (fastq_accuracies[nread := accuracies ! 0], fastq_alignment_lens[nread := l],
          read_not_found, more_than_one_alignment))
     else
       ebind (argmax accuracies) (\<lambda>loc.
       ebind (int_of_f64 (lens ! loc)) (\<lambda>l.
       merge_loop rest (Suc nread) alignment_ids alignment_accuracies alignment_lens
         (fastq_accuracies[nread := accuracies ! loc], fastq_alignment_lens[nread := l],
          read_not_found, Suc more_than_one_alignment)))))"

text \<open>\<^verbatim>\<open>print(a, b)\<close>: the arguments with a space between them, and a newline.\<close>

fun spaced_args :: "tok list list \<Rightarrow> tok list" where
  "spaced_args [] = []"
| "spaced_args [x] = x"
| "spaced_args (x # y # ys) = x @ S '' '' # spaced_args (y # ys)"

definition print_args :: "tok list list \<Rightarrow> (cal_event, unit) step" where
  "print_args args = ([Stdout (spaced_args args @ [S newline])], Inr ())"

definition merge_align_fastq_data ::
  "string list \<Rightarrow> string list \<Rightarrow> f64 list \<Rightarrow> f64 list \<Rightarrow> (cal_event, f64 list \<times> int list) step" where
  "merge_align_fastq_data fastq_ids alignment_ids alignment_accuracies alignment_lens =
     (let n_fastqs = length fastq_ids in
      bind (lift (merge_loop fastq_ids 0 alignment_ids alignment_accuracies alignment_lens
                    (replicate n_fastqs NaN, replicate n_fastqs (- 1), 0, 0)))
        (\<lambda>(fastq_accuracies, fastq_alignment_lens, read_not_found, more_than_one_alignment).
      bind (print [S (newline @ str_nat n_fastqs @ '' reads read from fastq.'')]) (\<lambda>_.
      bind (print [S (''    '' @ str_nat read_not_found @ '' not found in alignment summary.'')]) (\<lambda>_.
      bind (print [S (''    '' @ str_nat more_than_one_alignment @
                      '' with more than one alignment.'' @ newline)]) (\<lambda>_.
      lift (Inr (fastq_accuracies, fastq_alignment_lens)))))))"

subsection \<open>filter\_data\<close>

text \<open>
  The three masks: \<open>f\<close> the reads with an accuracy, \<open>g\<close> those whose coverage is above
  \<open>min_coverage\<close>, \<open>h\<close> those whose mean quality score is at least \<open>min_fastqscore\<close>.
  An array of scores that holds a \<open>None\<close> is an array of objects, and comparing \<open>None\<close>
  with a float raises \<open>TypeError\<close>.
\<close>

definition aligned_mask :: "f64 list \<Rightarrow> bool list" where
  "aligned_mask accuracies = map (\<lambda>a. a \<noteq> NaN) accuracies"

definition coverage_mask :: "int list \<Rightarrow> int list \<Rightarrow> real \<Rightarrow> py_error + bool list" where
  "coverage_mask alignment_lens fastq_lens min_coverage =
     ebind (broadcast2 f64_div_int alignment_lens fastq_lens) (\<lambda>coverage_fraction.
     Inr (map (\<lambda>c. f64_lt (Fin min_coverage) c) coverage_fraction))"

definition score_mask :: "f64 option list \<Rightarrow> real \<Rightarrow> py_error + bool list" where
  "score_mask fastqscores min_fastqscore =
     (if None \<in> set fastqscores then Inl TypeError
      else Inr (map (\<lambda>s. f64_le (Fin min_fastqscore) (the s)) fastqscores))"

definition mask_and :: "bool list \<Rightarrow> bool list \<Rightarrow> py_error + bool list" where
  "mask_and a b = broadcast2 (\<and>) a b"

text \<open>
  Lines 317 to 334. Each count is computed when its line is printed, so the lines
  printed before an exception stay in the trace.
\<close>

definition filter_data ::
  "f64 list \<Rightarrow> f64 option list \<Rightarrow> int list \<Rightarrow> int list \<Rightarrow> real \<Rightarrow> real \<Rightarrow>
   (cal_event, f64 list \<times> f64 list) step" where
  "filter_data accuracies fastqscores fastq_lens alignment_lens min_coverage min_fastqscore =
     (let f = aligned_mask accuracies in
      bind (lift (coverage_mask alignment_lens fastq_lens min_coverage)) (\<lambda>g.
      bind (lift (score_mask fastqscores min_fastqscore)) (\<lambda>h.
      bind (print_args [[S ''Total number of reads = ''], [S (str_nat (length accuracies))]]) (\<lambda>_.
      bind (lift (bool_index accuracies f)) (\<lambda>kept_f.
      bind (print_args [[S ''    After removing those not aligned:''],
                        [S (str_nat (length kept_f))]]) (\<lambda>_.
      bind (lift (ebind (mask_and f g) (bool_index accuracies))) (\<lambda>kept_fg.
      bind (print [S ''    After also removing coverage < '', F ''3.2f'' (Fin min_coverage),
                   S ('': '' @ str_nat (length kept_fg))]) (\<lambda>_.
      bind (lift (ebind (ebind (mask_and f g) (\<lambda>fg. mask_and fg h))
                    (bool_index accuracies))) (\<lambda>kept_fgh.
      bind (print [S ''    After also removing fastq score < '', F ''3.1f'' (Fin min_fastqscore),
                   S ('': '' @ str_nat (length kept_fgh))]) (\<lambda>_.
      bind (lift (ebind (ebind (mask_and f g) (\<lambda>fg. mask_and fg h))
                    (bool_index fastqscores))) (\<lambda>kept_scores.
      lift (Inr (kept_fgh, map the kept_scores)))))))))))))"

subsection \<open>The regression and the plot\<close>

definition calculate_regression :: "world \<Rightarrow> f64 list \<Rightarrow> f64 list \<Rightarrow> py_error + (f64 \<times> f64)" where
  "calculate_regression w mean_qscores calc_qscores = RLM_fit w mean_qscores calc_qscores"

text \<open>
  Lines 270 to 287: the empirical scores, clamped at \<open>max_alignment_score\<close>, the fit, and
  the calls that draw the figure. The minimum of an empty array raises \<open>ValueError\<close>.
  It returns the slope, then the intercept.
\<close>

definition single_read_accuracy_scatter ::
  "world \<Rightarrow> f64 list \<Rightarrow> f64 list \<Rightarrow> real \<Rightarrow> (cal_event, f64 \<times> f64) step" where
  "single_read_accuracy_scatter w accuracies meanqs max_alignment_score =
     (let y = map (\<lambda>a. let e = f64_mul (Fin (- 10)) (np_log10 (np w) (f64_sub (Fin 1) a))
                        in if f64_lt (Fin max_alignment_score) e then Fin max_alignment_score else e)
                accuracies;
          x = meanqs in
      bind ([Plot ''scatter''], Inr ()) (\<lambda>_.
      bind (lift (calculate_regression w x y)) (\<lambda>(c, m).
      bind (lift (if x = [] then Inl ValueError else Inr ())) (\<lambda>_.
      bind ([Plot ''plot'', Plot ''plot'', Plot ''legend'', Plot ''xlabel'', Plot ''ylabel'',
             Plot ''grid''], Inr ()) (\<lambda>_.
      lift (Inr (m, c)))))))"

subsection \<open>The script\<close>

record args =
  arg_alignment_summary :: "string option"
  arg_coverage_threshold :: real
  arg_max_alignment_score :: real
  arg_min_fastqscore :: real
  arg_fastq :: "string option"
  arg_input_directory :: "string option"
  arg_maxreads :: "int option"
  arg_plot_title :: "string option"
  arg_plot_filename :: string

definition ends_with :: "string \<Rightarrow> string \<Rightarrow> bool" where
  "ends_with suffix s = starts_with (rev suffix) (rev s)"

text \<open>
  Lines 342 to 354: the directory branch. It returns the two variables it assigns,
  \<open>fastqlist\<close> and \<open>alignment_summary_file\<close>; the second is \<open>None\<close> while the variable
  is not defined.
\<close>

definition directory_branch ::
  "world \<Rightarrow> args \<Rightarrow> (cal_event, string list option \<times> string option) step" where
  "directory_branch w a =
     (case arg_input_directory a of
        None \<Rightarrow> lift (Inr (None, None))
      | Some dir \<Rightarrow>
          bind (lift (listdir w dir)) (\<lambda>files.
          (let fastqlist = map (path_join w dir) (filter (ends_with ''.fastq'') files) in
           if length fastqlist = 0 then
             lift (Inl (Exception (''No fastq files found in '' @ dir)))
           else
             bind (print [S (''Getting q scores for '' @ str_nat (length fastqlist) @
                             '' fastq files from '' @ dir)]) (\<lambda>_.
             lift (Inr (Some fastqlist, Some (path_join w dir ''alignment_summary.txt'')))))))"

text \<open>
  Lines 355 to 359: a fastq file given on the command line replaces the list. The test
  of line 357 comes after the assignment, so the notice is always printed.
\<close>

definition fastq_branch :: "args \<Rightarrow> string list option \<Rightarrow> (cal_event, string list option) step" where
  "fastq_branch a fastqlist =
     (case arg_fastq a of
        None \<Rightarrow> lift (Inr fastqlist)
      | Some fq \<Rightarrow>
          bind (print [S ''Command-line argument fastq overrides directory list'']) (\<lambda>_.
          bind (print [S (''Calculating average q scores for '' @ fq)]) (\<lambda>_.
          lift (Inr (Some [fq])))))"

text \<open>Lines 361 to 364: an alignment summary given on the command line replaces the file.\<close>

definition summary_branch :: "args \<Rightarrow> string option \<Rightarrow> (cal_event, string option) step" where
  "summary_branch a alignment_summary_file =
     (case arg_alignment_summary a of
        None \<Rightarrow> lift (Inr alignment_summary_file)
      | Some summary \<Rightarrow>
          bind (print_args [[S ''Using alignment summary file at ''], [S summary]]) (\<lambda>_.
          lift (Inr (Some summary))))"

text \<open>
  Lines 378 to 394, from the merged data on: the filter, the regression, the report and
  the figure.
\<close>

definition report ::
  "world \<Rightarrow> args \<Rightarrow> f64 list \<Rightarrow> f64 option list \<Rightarrow> int list \<Rightarrow> int list \<Rightarrow> (cal_event, unit) step" where
  "report w a fastq_accuracies fastq_meanqs fastq_lens fastq_align_lens =
     bind (filter_data fastq_accuracies fastq_meanqs fastq_lens fastq_align_lens
             (arg_coverage_threshold a) (arg_min_fastqscore a)) (\<lambda>(accuracies, meanqs).
     bind (single_read_accuracy_scatter w accuracies meanqs (arg_max_alignment_score a))
       (\<lambda>(slope, intercept).
     bind (print_args [[S (newline @ newline @ ''Best-fit:'')],
             [S (case arg_plot_title a of None \<Rightarrow> ''None'' | Some title \<Rightarrow> title)]]) (\<lambda>_.
     bind (print [S ''Best-fit slope (qscore_scale) = '', F ''3.4f'' slope]) (\<lambda>_.
     bind (print [S ''Best-fit shift (qscore_shift) = '', F ''3.4f'' intercept]) (\<lambda>_.
     bind (if arg_plot_title a \<noteq> None then ([Plot ''title''], Inr ()) else lift (Inr ())) (\<lambda>_.
     bind (print [S (newline @ ''Saving plot to '' @ arg_plot_filename a)]) (\<lambda>_.
     bind ([Savefig (arg_plot_filename a)], savefig w (arg_plot_filename a)) (\<lambda>_.
     ([Plot ''close''], Inr ())))))))))"

text \<open>
  The script, lines 338 to 394. Line 373 reads the variable \<open>alignment_summary_file\<close>,
  after the fastq files have been read; Python raises \<open>NameError\<close> for a global
  variable that is not defined.
\<close>

definition calibrate_main :: "world \<Rightarrow> args \<Rightarrow> (cal_event, unit) step" where
  "calibrate_main w a =
     bind (print [S ''Calculating shift and scale parameters to calibrate per-read'']) (\<lambda>_.
     bind (print [S ''accuracy estimates from q scores.'']) (\<lambda>_.
     bind (directory_branch w a) (\<lambda>(dir_fastqlist, dir_summary).
     bind (fastq_branch a dir_fastqlist) (\<lambda>fastqlist.
     bind (summary_branch a dir_summary) (\<lambda>alignment_summary_file.
     bind (lift (case fastqlist of
                   None \<Rightarrow> Inl (Exception (''You must supply a directory containing '' @
                                             ''fastqs or the path to a fastq file''))
                 | Some l \<Rightarrow> Inr l)) (\<lambda>fastqlist.
     bind (read_fastqs w fastqlist (arg_maxreads a)) (\<lambda>(fastq_ids, fastq_meanqs, fastq_lens).
     bind (lift (case alignment_summary_file of
                   None \<Rightarrow> Inl (NameError ''alignment_summary_file'')
                 | Some file \<Rightarrow> Inr file)) (\<lambda>alignment_summary_file.
     bind (get_alignment_data w alignment_summary_file)
       (\<lambda>(align_ids, align_accuracies, align_lens).
     bind (merge_align_fastq_data fastq_ids align_ids align_accuracies align_lens)
       (\<lambda>(fastq_accuracies, fastq_align_lens).
     report w a fastq_accuracies fastq_meanqs fastq_lens fastq_align_lens))))))))))"

subsection \<open>A numpy for the examples, and the score in exact arithmetic\<close>

text \<open>
  The numpy of the examples returns, for the power of a positive base and for the
  logarithm, the float nearest to the exact value, and adds from left to right.
\<close>

definition nearest_power :: "f64 \<Rightarrow> f64 \<Rightarrow> f64" where
  "nearest_power a b =
     (case a of
        Fin x \<Rightarrow> (case b of Fin y \<Rightarrow> to_f64 (x powr y) | _ \<Rightarrow> NaN)
      | _ \<Rightarrow> NaN)"

definition nearest_log10 :: "f64 \<Rightarrow> f64" where
  "nearest_log10 a =
     (case a of
        Fin x \<Rightarrow> if 0 < x then to_f64 (log 10 x) else if x = 0 then NegInf else NaN
      | PosInf \<Rightarrow> PosInf
      | _ \<Rightarrow> NaN)"

fun left_to_right :: "nat \<Rightarrow> summation" where
  "left_to_right 0 = Elem 0"
| "left_to_right (Suc n) = Plus (left_to_right n) (Elem (Suc n))"

definition nearest_numpy :: numpy where
  "nearest_numpy =
     \<lparr>np_power = nearest_power, np_log10 = nearest_log10,
      np_sum_order = (\<lambda>n. left_to_right (n - 1))\<rparr>"


text \<open>
  The score as the specification words it, over the real numbers: each value to an
  error probability \<open>10 ^ (-q / 10)\<close>, the mean of the probabilities, and \<open>-10 log10\<close>
  of the mean.
\<close>

definition exact_qscore :: "int list \<Rightarrow> real" where
  "exact_qscore qvector =
     - 10 * log 10 (sum_list (map (\<lambda>q. 10 powr (- real_of_int q / 10)) qvector)
                    / real (length qvector))"

subsection \<open>Records, for stating the join and the filter\<close>

text \<open>
  The functions take parallel arrays. The claims speak of records: an alignment record
  (identifier, accuracy, alignment length) and a joined read (accuracy, mean quality
  score, basecall length, alignment length). The arrays of a list of records are its
  columns, so they have one length; a length is a whole number.
\<close>

record alignment =
  aln_id :: string
  aln_accuracy :: f64
  aln_len :: int

definition matching :: "string \<Rightarrow> alignment list \<Rightarrow> alignment list" where
  "matching fastq_id alns = filter (\<lambda>r. aln_id r = fastq_id) alns"

text \<open>
  What the claim says of the accuracy \<open>a\<close> and the length \<open>l\<close> given to a read whose
  matching alignment records are \<open>m\<close>, in order: none, missing and \<open>-1\<close>; one, its
  values; several, none of them with a missing accuracy: the values of a record whose
  accuracy no other exceeds and which is the first of that accuracy.
\<close>

definition chosen :: "alignment list \<Rightarrow> f64 \<Rightarrow> int \<Rightarrow> bool" where
  "chosen m a l =
     ((m = [] \<longrightarrow> a = NaN \<and> l = - 1) \<and>
      (\<forall>r. m = [r] \<longrightarrow> a = aln_accuracy r \<and> l = aln_len r) \<and>
      (2 \<le> length m \<and> (\<forall>r \<in> set m. aln_accuracy r \<noteq> NaN) \<longrightarrow>
         (\<exists>j < length m. a = aln_accuracy (m ! j) \<and> l = aln_len (m ! j) \<and>
            (\<forall>i < length m. f64_le (aln_accuracy (m ! i)) (aln_accuracy (m ! j))) \<and>
            (\<forall>i < j. f64_lt (aln_accuracy (m ! i)) (aln_accuracy (m ! j))))))"

record joined_read =
  accuracy :: f64
  mean_qscore :: f64
  basecall_len :: int
  alignment_len :: int


definition coverage :: "joined_read \<Rightarrow> f64" where
  "coverage r = f64_div_int (alignment_len r) (basecall_len r)"




section \<open>Properties of set\_params\<close>

text \<open>
  C1 (the code differs): a required name that is a key of the JSON params should get the
  array stored under that key. The exact-match branch only records the name, so line 69
  stores whatever \<open>jsn_layer_params\<close> holds. A layer whose single parameter \<open>weight\<close>
  is a key of the params stops with \<open>UnboundLocalError\<close> instead of loading the array
  \<open>[[1, 2]]\<close>; and a parameter \<open>scale\<close> that follows \<open>weight_ih_l0\<close> is loaded with
  the tensor built from \<open>iW\<close>, \<open>[1, 2]\<close>, not with the array \<open>[8, 9]\<close> stored under
  its own key.
\<close>

theorem set_params_exact_key_unbound:
  "set_params \<lparr>l_class = ''Linear'', state_dict = [(''weight'', Arr [Arr [Num 0, Num 0]])]\<rparr>
     [(''weight'', Arr [Arr [Num 1, Num 2]])]
   = Inl ([], UnboundLocalError ''jsn_layer_params'')
   \<and> set_params
       \<lparr>l_class = ''GruMod'',
        state_dict = [(''cudnn_gru.weight_ih_l0'', Arr [Num 0, Num 0]),
                      (''scale'', Arr [Num 0, Num 0])]\<rparr>
       [(''iW'', Arr [Arr [Num 1], Arr [Num 2]]), (''scale'', Arr [Num 8, Num 9])]
     = Inr \<lparr>l_class = ''GruMod'',
            state_dict = [(''cudnn_gru.weight_ih_l0'', Arr [Num 1, Num 2]),
                          (''scale'', Arr [Num 1, Num 2])]\<rparr>"
  by (simp add: set_params_def guess_params_def has_key_def np_concatenate_def
      rectangular_def load_state_dict_def)

text \<open>
  C2 (the code differs): a hidden-path recurrent bias should take nothing from the JSON
  params. In a recurrent cell, whose state dictionary lists \<open>bias_ih\<close> before
  \<open>bias_hh\<close>, the \<open>bias_hh\<close> parameter is loaded with the tensor left over from
  \<open>bias_ih\<close>: the concatenated groups of the JSON entry \<open>b\<close>, here \<open>[5, 6]\<close>, not its
  existing value \<open>[7, 8]\<close> and not zero.
\<close>

theorem set_params_bias_hh_leftover:
  "set_params
     \<lparr>l_class = ''GruMod'',
      state_dict = [(''cudnn_gru.weight_ih_l0'', Arr [Arr [Num 0], Arr [Num 0]]),
                    (''cudnn_gru.weight_hh_l0'', Arr [Arr [Num 0], Arr [Num 0]]),
                    (''cudnn_gru.bias_ih_l0'', Arr [Num 0, Num 0]),
                    (''cudnn_gru.bias_hh_l0'', Arr [Num 7, Num 8])]\<rparr>
     [(''iW'', Arr [Arr [Arr [Num 1]], Arr [Arr [Num 2]]]),
      (''sW'', Arr [Arr [Arr [Num 3]], Arr [Arr [Num 4]]]),
      (''b'', Arr [Arr [Num 5], Arr [Num 6]])]
   = Inr \<lparr>l_class = ''GruMod'',
          state_dict = [(''cudnn_gru.weight_ih_l0'', Arr [Arr [Num 1], Arr [Num 2]]),
                        (''cudnn_gru.weight_hh_l0'', Arr [Arr [Num 3], Arr [Num 4]]),
                        (''cudnn_gru.bias_ih_l0'', Arr [Num 5, Num 6]),
                        (''cudnn_gru.bias_hh_l0'', Arr [Num 5, Num 6])]\<rparr>"
  by (simp add: set_params_def guess_params_def has_key_def np_concatenate_def
      rectangular_def load_state_dict_def)

section \<open>Properties of the layer factory and of main\<close>

lemma starts_with_append: "starts_with p (p @ s)"
  by (induction p) simp_all

lemma re_search_self: "re_search p (p @ b)"
proof (cases "p @ b")
  case Nil
  then show ?thesis by simp
next
  case (Cons c cs)
  have "starts_with p (p @ b)" by (rule starts_with_append)
  with Cons show ?thesis by simp
qed

lemma re_search_append: "re_search p (a @ p @ b)"
  by (induction a) (simp_all add: re_search_self)

lemma join_holds_element: "t \<in> set xs \<Longrightarrow> \<exists>a b. join sep xs = a @ t @ b"
proof (induction sep xs rule: join.induct)
  case (1 sep)
  then show ?case by simp
next
  case (2 sep x)
  then have "join sep [x] = [] @ t @ []" by simp
  then show ?case by blast
next
  case (3 sep x y ys)
  show ?case
  proof (cases "t = x")
    case True
    then have "join sep (x # y # ys) = [] @ t @ (sep @ join sep (y # ys))" by simp
    then show ?thesis by blast
  next
    case False
    with 3 obtain a b where "join sep (y # ys) = a @ t @ b" by auto
    then have "join sep (x # y # ys) = (x @ sep @ a) @ t @ b" by simp
    then show ?thesis by blast
  qed
qed

lemma re_search_join:
  assumes "t \<in> set xs"
  shows "re_search t (pre @ join sep xs @ post)"
proof -
  from assms obtain a b where "join sep xs = a @ t @ b"
    using join_holds_element by blast
  then have "pre @ join sep xs @ post = (pre @ a) @ t @ (b @ post)" by simp
  then show ?thesis using re_search_append [of t "pre @ a" "b @ post"] by simp
qed

text \<open>
  C3: when some layer of the JSON model has a type outside the compatible set, \<open>main\<close>
  exits with code 1, and the only thing the run has done is to write one message to the
  error stream: no constructor was called and no checkpoint written. The message is the
  "Incompatible layer type(s)" line; the types it lists are the types of the model
  outside the set, and each of them occurs in it.
\<close>

theorem main_incompatible_layer_type:
  assumes "\<exists>s \<in> set sublayers. sl_type s \<notin> COMPATIBLE_LAYERS"
  shows "main lib sublayers =
           ([Stderr (''Incompatible layer type(s) ('' @
               join '', '' (incompatible_types sublayers) @ '') encountered.'' @ newline)],
            Inl (SysExit 1))
         \<and> set (incompatible_types sublayers) = sl_type ` set sublayers - COMPATIBLE_LAYERS
         \<and> (\<forall>s \<in> set sublayers. sl_type s \<notin> COMPATIBLE_LAYERS \<longrightarrow>
              re_search (sl_type s) (''Incompatible layer type(s) ('' @
                join '', '' (incompatible_types sublayers) @ '') encountered.'' @ newline))"
proof -
  have types: "set (incompatible_types sublayers) = sl_type ` set sublayers - COMPATIBLE_LAYERS"
    by (auto simp: incompatible_types_def)
  with assms have "incompatible_types sublayers \<noteq> []" by auto
  then have run: "main lib sublayers =
           ([Stderr (''Incompatible layer type(s) ('' @
               join '', '' (incompatible_types sublayers) @ '') encountered.'' @ newline)],
            Inl (SysExit 1))"
    by (simp add: main_def bind_def lift_def write_stderr_def)
  have "re_search (sl_type s) (''Incompatible layer type(s) ('' @
          join '', '' (incompatible_types sublayers) @ '') encountered.'' @ newline)"
    if "s \<in> set sublayers" "sl_type s \<notin> COMPATIBLE_LAYERS" for s
  proof -
    from that types have "sl_type s \<in> set (incompatible_types sublayers)" by auto
    then show ?thesis by (rule re_search_join)
  qed
  with run types show ?thesis by blast
qed

theorem main_incompatible_layer_type_witness:
  "\<forall>lib. main lib
     [Sublayer ''GruMod'' (Some 4) (Some 8) None None None None None None (Some []) None,
      Sublayer ''bogus'' None None None None None None None None None None]
   = ([Stderr (''Incompatible layer type(s) (bogus) encountered.'' @ newline)],
      Inl (SysExit 1))"
proof
  fix lib
  let ?m = "[Sublayer ''GruMod'' (Some 4) (Some 8) None None None None None None (Some []) None,
      Sublayer ''bogus'' None None None None None None None None None None]"
  have bad: "\<exists>s \<in> set ?m. sl_type s \<notin> COMPATIBLE_LAYERS"
    by (simp add: COMPATIBLE_LAYERS_def)
  have "incompatible_types ?m = [''bogus'']"
    by (simp add: incompatible_types_def COMPATIBLE_LAYERS_def)
  with main_incompatible_layer_type [OF bad, of lib]
  show "main lib ?m = ([Stderr (''Incompatible layer type(s) (bogus) encountered.'' @ newline)],
      Inl (SysExit 1))"
    by simp
qed

text \<open>
  C4 (as stated it fails): with \<open>output_alphabet = "ACGT"\<close> and \<open>can_nmods = [1,0,0,0]\<close>
  the loop reads \<open>output_alphabet[4]\<close> for the fourth canonical base, past the end of the
  four-letter alphabet, and raises \<open>IndexError\<close>: no collapse alphabet is derived.
\<close>

theorem collapse_alphabet_ACGT_counterexample:
  "derive_collapse_alphabet ''ACGT'' [1, 0, 0, 0] = Inl IndexError"
  by (simp add: derive_collapse_alphabet_def str_index_def str_times_def)

text \<open>
  C4 (amended): the output alphabet lists each canonical base followed by its modified
  bases. With an output alphabet that starts with the five symbols \<open>a m c g t\<close> (\<open>m\<close> the
  modified base of \<open>a\<close>, as in "AZCGT") and \<open>can_nmods = [1,0,0,0]\<close>, the collapse alphabet
  is \<open>a a c g t\<close>: length 5, the first base twice.
\<close>

theorem collapse_alphabet_one_mod:
  "derive_collapse_alphabet (a # m # c # g # t # rest) [1, 0, 0, 0] = Inr [a, a, c, g, t]"
  by (simp add: derive_collapse_alphabet_def str_index_def str_times_def numeral_2_eq_2)

text \<open>
  C9 (the code differs): a convolution descriptor whose activation is not \<open>tanh\<close> does
  end the run with exit code 1 and one message on the error stream, before any
  constructor is called; but the message is formatted with the descriptor's \<open>type\<close>, so
  for the activation \<open>relu\<close> it names \<open>convolution\<close> and the activation does not occur
  in it.
\<close>

theorem parse_sublayer_activation_message:
  "parse_sublayer lib
     (Sublayer ''convolution'' (Some 1) (Some 2) (Some ''relu'') (Some 3) (Some 4)
        None None None (Some []) None)
   = ([Stderr (''Incompatible convolutional layer activation fucntion (convolution) encountered.''
               @ newline)],
      Inl (SysExit 1))
   \<and> \<not> re_search ''relu''
         (''Incompatible convolutional layer activation fucntion (convolution) encountered.''
          @ newline)"
  by (simp add: parse_sublayer_def make_layer_def bind_def lift_def write_stderr_def
      subscript_def newline_def)

section \<open>Properties of the calibrator\<close>

subsection \<open>Rounding\<close>

lemma round_half_even_int: "round_half_even (of_int k) = k"
  by (simp add: round_half_even_def)




lemma round64_dyadic:
  assumes "x = of_int m / 2 ^ j" "\<bar>m\<bar> < 2 ^ 53" "j \<le> 1074"
  shows "round64 x = x"
proof (cases "m = 0")
  case True
  then show ?thesis using assms by (simp add: round64_def)
next
  case False
  define E where "E = max \<lfloor>log 2 \<bar>x\<bar>\<rfloor> (- 1022)"
  have x: "x \<noteq> 0" using False assms(1) by simp
  have "\<bar>x\<bar> < 2 ^ 53 / 2 ^ j"
  proof -
    have "\<bar>x\<bar> = \<bar>of_int m\<bar> / 2 ^ j" using assms(1) by (simp add: abs_divide)
    also have "\<bar>real_of_int m\<bar> < 2 ^ 53"
      using assms(2) by (metis of_int_abs of_int_less_numeral_power_cancel_iff)
    finally show ?thesis by (simp add: divide_strict_right_mono)
  qed
  also have "\<dots> = 2 powr (53 - real j)"
    by (simp add: powr_diff powr_realpow)
  finally have "log 2 \<bar>x\<bar> < 53 - real j"
    using x by (simp add: log_less_iff)
  then have "\<lfloor>log 2 \<bar>x\<bar>\<rfloor> < 53 - int j" by linarith
  with assms(3) have E: "E + int j \<le> 52" by (simp add: E_def)
  define d where "d = nat (52 - E - int j)"
  have d: "int d = 52 - E - int j" using E by (simp add: d_def)
  have "ulp x = 2 powr (of_int E - 52)" by (simp add: ulp_def E_def)
  also have "of_int E - 52 = - real d - real j"
    using d by linarith
  finally have u: "ulp x = 1 / (2 ^ d * 2 ^ j)"
    by (simp add: powr_diff powr_minus powr_realpow field_simps)
  have "x / (1 / (2 ^ d * 2 ^ j)) = of_int (m * 2 ^ d)"
    unfolding assms(1) by simp
  then have "x / ulp x = of_int (m * 2 ^ d)"
    by (simp only: u)
  then have "round_half_even (x / ulp x) = m * 2 ^ d"
    by (simp only: round_half_even_int)
  then have "round64 x = (1 / (2 ^ d * 2 ^ j)) * of_int (m * 2 ^ d)"
    using x by (simp only: round64_def u if_False)
  also have "\<dots> = x" unfolding assms(1) by simp
  finally show ?thesis .
qed

lemma round64_int: "\<bar>k\<bar> < 2 ^ 53 \<Longrightarrow> round64 (of_int k) = of_int k"
  using round64_dyadic [of "of_int k" k 0] by simp










subsection \<open>The mean quality score\<close>

text \<open>
  In exact arithmetic the mean quality score of a read whose quality values all equal
  \<open>q\<close> is \<open>q\<close>: the mean of equal error probabilities is that probability, and the
  logarithm undoes the power.
\<close>

lemma exact_qscore_homogeneous: "exact_qscore (replicate (Suc n) q) = real_of_int q"
proof -
  let ?p = "10 powr (- real_of_int q / 10) :: real"
  have "sum_list (map (\<lambda>q. 10 powr (- real_of_int q / 10)) (replicate (Suc n) q))
          = real (Suc n) * ?p"
    by (simp only: map_replicate sum_list_replicate)
  then have mean: "sum_list (map (\<lambda>q. 10 powr (- real_of_int q / 10)) (replicate (Suc n) q))
          / real (length (replicate (Suc n) q)) = ?p"
    by simp
  have "- 10 * log 10 ?p = real_of_int q" by simp
  with mean show ?thesis
    unfolding exact_qscore_def by (simp del: replicate.simps)
qed















subsection \<open>The alignment summary\<close>

lemma field_missing: "name \<notin> fst ` set t \<Longrightarrow> field t name = Inl ValueError"
  by (cases "map_of t name") (auto simp: field_def dest!: map_of_SomeD intro: rev_image_eqI)

lemma field_error: "field t name = Inl e \<Longrightarrow> e = ValueError"
  by (auto simp: field_def split: option.splits)

lemma read_guppy_missing:
  assumes "\<not> {''read_id'', ''alignment_accuracy'', ''alignment_strand_end'',
             ''alignment_strand_start''} \<subseteq> fst ` set t"
  shows "read_guppy t = Inl ValueError"
proof -
  from assms consider "''read_id'' \<notin> fst ` set t" | "''alignment_accuracy'' \<notin> fst ` set t"
    | "''alignment_strand_end'' \<notin> fst ` set t" | "''alignment_strand_start'' \<notin> fst ` set t"
    by blast
  then show ?thesis
    by cases
      (auto simp: read_guppy_def ebind_def field_missing split: sum.splits dest: field_error)
qed

lemma read_taiyaki_missing:
  assumes "\<not> {''query'', ''accuracy'', ''reference_end'', ''reference_start'', ''insertion'',
             ''deletion''} \<subseteq> fst ` set t"
  shows "read_taiyaki t = Inl ValueError"
proof -
  from assms consider "''query'' \<notin> fst ` set t" | "''accuracy'' \<notin> fst ` set t"
    | "''reference_end'' \<notin> fst ` set t" | "''reference_start'' \<notin> fst ` set t"
    | "''insertion'' \<notin> fst ` set t" | "''deletion'' \<notin> fst ` set t"
    by blast
  then show ?thesis
    by cases
      (auto simp: read_taiyaki_def ebind_def field_missing split: sum.splits dest: field_error)
qed

text \<open>
  For a table that has neither all four columns of the first format nor all six of the
  second, \<open>get_alignment_data\<close> prints nothing and raises an exception. Its message is
  the fixed text of lines 165 to 169 followed by the list of the columns of the table, so
  each column found occurs in it.
\<close>

lemma get_alignment_data_unknown_columns:
  assumes "readtsv w alignment_file = Inr t"
    and "\<not> {''read_id'', ''alignment_accuracy'', ''alignment_strand_end'',
             ''alignment_strand_start''} \<subseteq> fst ` set t"
    and "\<not> {''query'', ''accuracy'', ''reference_end'', ''reference_start'', ''insertion'',
             ''deletion''} \<subseteq> fst ` set t"
  shows "get_alignment_data w alignment_file =
           ([], Inl (Exception (schema_message @ ''. Columns are '' @ str_list (map fst t))))
         \<and> re_search ''(read_ids, alignment accuracy, alignment_strand_end, alignment_strand_start)''
             (schema_message @ ''. Columns are '' @ str_list (map fst t))
         \<and> re_search ''(id, accuracy, reference_end, reference_start, insertion, deletion  )''
             (schema_message @ ''. Columns are '' @ str_list (map fst t))
         \<and> (\<forall>c \<in> fst ` set t.
              re_search (py_repr c) (schema_message @ ''. Columns are '' @ str_list (map fst t)))"
proof -
  let ?msg = "schema_message @ ''. Columns are '' @ str_list (map fst t)"
  have raised: "get_alignment_data w alignment_file = ([], Inl (Exception ?msg))"
    using assms
    by (simp add: get_alignment_data_def alignment_columns_def bind_def lift_def
        read_guppy_missing read_taiyaki_missing)
  have split: "\<exists>a b. schema_message = a @ p @ b \<Longrightarrow> re_search p ?msg" for p
  proof -
    assume "\<exists>a b. schema_message = a @ p @ b"
    then obtain a b where "schema_message = a @ p @ b" by blast
    then have e: "?msg = a @ p @ (b @ ''. Columns are '' @ str_list (map fst t))" by simp
    show ?thesis unfolding e by (rule re_search_append)
  qed
  have guppy: "re_search
      ''(read_ids, alignment accuracy, alignment_strand_end, alignment_strand_start)'' ?msg"
  proof (rule split)
    have "schema_message = ''Alignment summary file must contain either columns '' @
        ''(read_ids, alignment accuracy, alignment_strand_end, alignment_strand_start)'' @
        '' or (id, accuracy, reference_end, reference_start, insertion, deletion  )''"
      by (simp add: schema_message_def)
    then show "\<exists>a b. schema_message =
        a @ ''(read_ids, alignment accuracy, alignment_strand_end, alignment_strand_start)'' @ b"
      by blast
  qed
  have taiyaki: "re_search
      ''(id, accuracy, reference_end, reference_start, insertion, deletion  )'' ?msg"
  proof (rule split)
    have "schema_message = (''Alignment summary file must contain either columns '' @
        ''(read_ids, alignment accuracy, alignment_strand_end, alignment_strand_start) or '') @
        ''(id, accuracy, reference_end, reference_start, insertion, deletion  )'' @ []"
      by (simp add: schema_message_def)
    then show "\<exists>a b. schema_message =
        a @ ''(id, accuracy, reference_end, reference_start, insertion, deletion  )'' @ b"
      by blast
  qed
  have found: "re_search (py_repr c) ?msg" if "c \<in> fst ` set t" for c
  proof -
    from that have "py_repr c \<in> set (map py_repr (map fst t))" by auto
    then have "re_search (py_repr c)
        ((schema_message @ ''. Columns are ['') @ join '', '' (map py_repr (map fst t)) @ '']'')"
      by (rule re_search_join)
    then show ?thesis by (simp add: str_list_def)
  qed
  from raised guppy taiyaki found show ?thesis by blast
qed

text \<open>
  C8 (the code differs): the exception is raised and its message lists the columns found,
  but the fixed text does not name the columns the function reads. It says \<open>read_ids\<close>,
  \<open>alignment accuracy\<close> and \<open>id\<close> where the fields are \<open>read_id\<close>,
  \<open>alignment_accuracy\<close> and \<open>query\<close>: for a table with the columns \<open>read_id\<close> and
  \<open>accuracy\<close> neither \<open>query\<close> nor \<open>alignment_accuracy\<close> occurs in the message.
\<close>

theorem get_alignment_data_message_names:
  "get_alignment_data
     \<lparr>np = nearest_numpy, listdir = \<lambda>d. Inl OSError, path_join = \<lambda>d f. d @ ''/'' @ f,
      SeqIO_parse = \<lambda>f. Inl OSError,
      readtsv = \<lambda>f. Inr [(''read_id'', [\<lparr>cell_text = ''r1'', cell_number = NaN\<rparr>]),
                          (''accuracy'', [\<lparr>cell_text = ''0.9'', cell_number = Fin 0.9\<rparr>])],
      RLM_fit = \<lambda>x y. Inl ValueError, savefig = \<lambda>f. Inr ()\<rparr>
     ''summary.txt''
   = ([], Inl (Exception (schema_message @ ''. Columns are '' @
                 str_list [''read_id'', ''accuracy''])))
   \<and> \<not> re_search ''query''
         (schema_message @ ''. Columns are '' @ str_list [''read_id'', ''accuracy''])
   \<and> \<not> re_search ''alignment_accuracy''
         (schema_message @ ''. Columns are '' @ str_list [''read_id'', ''accuracy''])"
proof -
  define t where "t = [(''read_id'', [\<lparr>cell_text = ''r1'', cell_number = NaN\<rparr>]),
                       (''accuracy'', [\<lparr>cell_text = ''0.9'', cell_number = Fin 0.9\<rparr>])]"
  define w where "w = \<lparr>np = nearest_numpy, listdir = \<lambda>d. Inl OSError, path_join = \<lambda>d f. d @ ''/'' @ f,
      SeqIO_parse = \<lambda>f. Inl OSError, readtsv = \<lambda>f. Inr t,
      RLM_fit = \<lambda>x y. Inl ValueError, savefig = \<lambda>f. Inr ()\<rparr>"
  have tsv: "readtsv w ''summary.txt'' = Inr t" by (simp add: w_def)
  have no_guppy: "\<not> {''read_id'', ''alignment_accuracy'', ''alignment_strand_end'',
             ''alignment_strand_start''} \<subseteq> fst ` set t"
    by (simp add: t_def)
  have no_taiyaki: "\<not> {''query'', ''accuracy'', ''reference_end'', ''reference_start'',
             ''insertion'', ''deletion''} \<subseteq> fst ` set t"
    by (simp add: t_def)
  have cols: "map fst t = [''read_id'', ''accuracy'']" by (simp add: t_def)
  from get_alignment_data_unknown_columns [OF tsv no_guppy no_taiyaki]
  have "get_alignment_data w ''summary.txt'' =
           ([], Inl (Exception (schema_message @ ''. Columns are '' @
                       str_list [''read_id'', ''accuracy''])))"
    unfolding cols by (rule conjunct1)
  then have raised: "get_alignment_data
     \<lparr>np = nearest_numpy, listdir = \<lambda>d. Inl OSError, path_join = \<lambda>d f. d @ ''/'' @ f,
      SeqIO_parse = \<lambda>f. Inl OSError,
      readtsv = \<lambda>f. Inr [(''read_id'', [\<lparr>cell_text = ''r1'', cell_number = NaN\<rparr>]),
                          (''accuracy'', [\<lparr>cell_text = ''0.9'', cell_number = Fin 0.9\<rparr>])],
      RLM_fit = \<lambda>x y. Inl ValueError, savefig = \<lambda>f. Inr ()\<rparr>
     ''summary.txt''
   = ([], Inl (Exception (schema_message @ ''. Columns are '' @
                 str_list [''read_id'', ''accuracy''])))"
    unfolding w_def t_def .
  have no_query: "\<not> re_search ''query''
         (schema_message @ ''. Columns are '' @ str_list [''read_id'', ''accuracy''])"
    by (simp add: schema_message_def str_list_def py_repr_def)
  have no_accuracy: "\<not> re_search ''alignment_accuracy''
         (schema_message @ ''. Columns are '' @ str_list [''read_id'', ''accuracy''])"
    by (simp add: schema_message_def str_list_def py_repr_def)
  from raised no_query no_accuracy show ?thesis by (intro conjI)
qed

subsection \<open>The script without an alignment summary\<close>

lemma read_records_events:
  "read_records lib maxreads records reads = (ev, rs) \<Longrightarrow> set ev \<subseteq> {Stdout [S ''.'']}"
proof (induction records arbitrary: reads ev rs)
  case Nil
  then show ?case by simp
next
  case (Cons r records)
  obtain rid scores where r: "r = (rid, scores)" by (cases r)
  define reads' where "reads' = reads @
     [(rid, if 0 < length scores then Some (fastq_file_qscore lib scores) else None,
       int (length scores))]"
  define dot where "dot = (if (int (length reads') + 1) mod reads_per_dot = 0
                 then [Stdout [S ''.'']] else [])"
  have dot: "set dot \<subseteq> {Stdout [S ''.'']}" by (auto simp: dot_def)
  have step: "read_records lib maxreads (r # records) reads =
      (if reached maxreads reads' then (dot, reads')
       else (case read_records lib maxreads records reads' of (ev, rs) \<Rightarrow> (dot @ ev, rs)))"
    unfolding r reads'_def dot_def by (simp add: Let_def)
  show ?case
  proof (cases "reached maxreads reads'")
    case True
    with Cons.prems step have "ev = dot" by simp
    with dot show ?thesis by simp
  next
    case False
    obtain ev' rs' where rest: "read_records lib maxreads records reads' = (ev', rs')"
      by (cases "read_records lib maxreads records reads'")
    with Cons.prems False step have "ev = dot @ ev'" by simp
    moreover from Cons.IH [OF rest] have "set ev' \<subseteq> {Stdout [S ''.'']}" .
    ultimately show ?thesis using dot by auto
  qed
qed

lemma read_files_events:
  "set (fst (read_files w maxreads files reads)) \<subseteq> {Stdout [S ''.'']}"
proof (induction files arbitrary: reads)
  case Nil
  then show ?case by (simp add: lift_def)
next
  case (Cons f files)
  show ?case
  proof (cases "SeqIO_parse w f")
    case (Inl e)
    then show ?thesis by (simp add: bind_def lift_def)
  next
    case (Inr records)
    obtain ev reads' where rr: "read_records (np w) maxreads records reads = (ev, reads')"
      by (cases "read_records (np w) maxreads records reads")
    from read_records_events [OF rr] have ev: "set ev \<subseteq> {Stdout [S ''.'']}" .
    show ?thesis
    proof (cases "reached maxreads reads'")
      case True
      with Inr rr ev show ?thesis by (simp add: bind_def lift_def)
    next
      case False
      obtain tr res where rest: "read_files w maxreads files reads' = (tr, res)"
        by (cases "read_files w maxreads files reads'")
      with Cons.IH [of reads'] have "set tr \<subseteq> {Stdout [S ''.'']}" by simp
      with Inr rr ev False rest show ?thesis by (simp add: bind_def lift_def)
    qed
  qed
qed

lemma read_fastqs_events:
  "set (fst (read_fastqs w fastqlist maxreads)) \<subseteq>
     {Stdout [S ''Printing one dot for every 100 reads.'', S newline],
      Stdout [S ''.''], Stdout [S [], S newline]}"
proof -
  obtain tr res where rf: "read_files w maxreads fastqlist [] = (tr, res)"
    by (cases "read_files w maxreads fastqlist []")
  with read_files_events [of w maxreads fastqlist "[]"] have tr: "set tr \<subseteq> {Stdout [S ''.'']}"
    by simp
  have s100: "str_int reads_per_dot = ''100''"
    unfolding reads_per_dot_def str_int_def by code_simp
  show ?thesis
    using rf tr
    by (cases res) (auto simp: read_fastqs_def bind_def lift_def print_def s100)
qed

text \<open>
  C10: with \<open>--fastq\<close> given and neither \<open>--input_directory\<close> nor \<open>--alignment_summary\<close>,
  no branch defines \<open>alignment_summary_file\<close>. The script prints its two opening lines
  and the two lines of the fastq branch, reads the fastq file, and then stops: with the
  exception of the fastq reader if that failed, else with \<open>NameError\<close> at line 373.
  Every event of the run is one of seven lines of standard output; none of them is a
  best-fit line, a call of the plotting library or the figure.
\<close>

theorem calibrate_main_fastq_without_summary:
  assumes "arg_fastq a = Some fq"
    and "arg_input_directory a = None"
    and "arg_alignment_summary a = None"
  shows "calibrate_main w a =
    ([Stdout [S ''Calculating shift and scale parameters to calibrate per-read'', S newline],
      Stdout [S ''accuracy estimates from q scores.'', S newline],
      Stdout [S ''Command-line argument fastq overrides directory list'', S newline],
      Stdout [S (''Calculating average q scores for '' @ fq), S newline]]
     @ fst (read_fastqs w [fq] (arg_maxreads a)),
     Inl (case snd (read_fastqs w [fq] (arg_maxreads a)) of
            Inl e \<Rightarrow> e | Inr r \<Rightarrow> NameError ''alignment_summary_file''))
    \<and> set (fst (calibrate_main w a)) \<subseteq>
     {Stdout [S ''Calculating shift and scale parameters to calibrate per-read'', S newline],
      Stdout [S ''accuracy estimates from q scores.'', S newline],
      Stdout [S ''Command-line argument fastq overrides directory list'', S newline],
      Stdout [S (''Calculating average q scores for '' @ fq), S newline],
      Stdout [S ''Printing one dot for every 100 reads.'', S newline],
      Stdout [S ''.''], Stdout [S [], S newline]}"
proof -
  define l1 where "l1 = Stdout [S ''Calculating shift and scale parameters to calibrate per-read'', S newline]"
  define l2 where "l2 = Stdout [S ''accuracy estimates from q scores.'', S newline]"
  define l3 where "l3 = Stdout [S ''Command-line argument fastq overrides directory list'', S newline]"
  define l4 where "l4 = Stdout [S (''Calculating average q scores for '' @ fq), S newline]"
  define l5 where "l5 = Stdout [S ''Printing one dot for every 100 reads.'', S newline]"
  define l6 where "l6 = Stdout [S ''.'']"
  define l7 where "l7 = Stdout [S [], S newline]"
  define out where "out = read_fastqs w [fq] (arg_maxreads a)"
  have run: "calibrate_main w a =
      ([l1, l2, l3, l4] @ fst out, Inl (case snd out of
            Inl e \<Rightarrow> e | Inr r \<Rightarrow> NameError ''alignment_summary_file''))"
    using assms unfolding l1_def l2_def l3_def l4_def
    by (cases out)
      (auto simp: out_def [symmetric] calibrate_main_def directory_branch_def fastq_branch_def
        summary_branch_def bind_def lift_def print_def split: prod.splits sum.splits)
  have ev: "set (fst out) \<subseteq> {l5, l6, l7}"
    unfolding out_def l5_def l6_def l7_def by (rule read_fastqs_events)
  have "set (fst (calibrate_main w a)) = {l1, l2, l3, l4} \<union> set (fst out)"
    unfolding run by simp
  with ev have all: "set (fst (calibrate_main w a)) \<subseteq> {l1, l2, l3, l4, l5, l6, l7}"
    by blast
  show ?thesis
    using run all unfolding l1_def l2_def l3_def l4_def l5_def l6_def l7_def out_def
    by (rule conjI)
qed


theorem calibrate_main_fastq_without_summary_witness:
  "snd (calibrate_main
     \<lparr>np = nearest_numpy, listdir = \<lambda>d. Inl OSError, path_join = \<lambda>d f. d @ ''/'' @ f,
      SeqIO_parse = \<lambda>f. Inr [(''read1'', [10, 10])], readtsv = \<lambda>f. Inl OSError,
      RLM_fit = \<lambda>x y. Inl ValueError, savefig = \<lambda>f. Inr ()\<rparr>
     \<lparr>arg_alignment_summary = None, arg_coverage_threshold = 0.8,
      arg_max_alignment_score = 40, arg_min_fastqscore = 7,
      arg_fastq = Some ''reads.fastq'', arg_input_directory = None, arg_maxreads = None,
      arg_plot_title = None, arg_plot_filename = ''qscore_calibration.png''\<rparr>)
   = Inl (NameError ''alignment_summary_file'')"
proof -
  define w where "w = \<lparr>np = nearest_numpy, listdir = \<lambda>d. Inl OSError, path_join = \<lambda>d f. d @ ''/'' @ f,
      SeqIO_parse = \<lambda>f. Inr [(''read1'', [10, 10])], readtsv = \<lambda>f. Inl OSError,
      RLM_fit = \<lambda>x y. Inl ValueError, savefig = \<lambda>f. Inr ()\<rparr>"
  define a where "a = \<lparr>arg_alignment_summary = None, arg_coverage_threshold = 0.8,
      arg_max_alignment_score = 40, arg_min_fastqscore = 7,
      arg_fastq = Some ''reads.fastq'', arg_input_directory = None, arg_maxreads = None,
      arg_plot_title = None, arg_plot_filename = ''qscore_calibration.png''\<rparr>"
  have fq: "arg_fastq a = Some ''reads.fastq''" by (simp add: a_def)
  have dir: "arg_input_directory a = None" by (simp add: a_def)
  have summary: "arg_alignment_summary a = None" by (simp add: a_def)
  have parse: "SeqIO_parse w ''reads.fastq'' = Inr [(''read1'', [10, 10])]" by (simp add: w_def)
  have nomax: "arg_maxreads a = None" by (simp add: a_def)
  have "\<exists>r. snd (read_fastqs w [''reads.fastq''] (arg_maxreads a)) = Inr r"
    by (simp add: read_fastqs_def bind_def lift_def print_def reached_def parse nomax Let_def)
  then obtain r where "snd (read_fastqs w [''reads.fastq''] (arg_maxreads a)) = Inr r" ..
  with calibrate_main_fastq_without_summary [OF fq dir summary, of w]
  have "snd (calibrate_main w a) = Inl (NameError ''alignment_summary_file'')" by simp
  then show ?thesis unfolding w_def a_def .
qed

subsection \<open>The join\<close>

lemma f64_le_refl: "a \<noteq> NaN \<Longrightarrow> f64_le a a"
  by (simp add: f64_le_def)

lemma f64_not_le: "a \<noteq> NaN \<Longrightarrow> b \<noteq> NaN \<Longrightarrow> \<not> f64_le a b \<Longrightarrow> f64_lt b a"
  by (cases a; cases b) (auto simp: f64_le_def)

lemma f64_le_lt_trans: "f64_le a b \<Longrightarrow> f64_lt b c \<Longrightarrow> f64_lt a c"
  by (cases a; cases b; cases c) (auto simp: f64_le_def)

lemma f64_lt_le: "f64_lt a b \<Longrightarrow> f64_le a b"
  by (cases a; cases b) (auto simp: f64_le_def)

lemma argmax_from_max:
  assumes "\<forall>v \<in> set (ys @ xs). v \<noteq> NaN"
    and "i = length ys" and "best < i" and "mp = ys ! best"
    and "\<forall>k < i. f64_le (ys ! k) mp"
    and "\<forall>k < best. f64_lt (ys ! k) mp"
  shows "argmax_from xs i mp best < length (ys @ xs) \<and>
         (\<forall>k < length (ys @ xs).
            f64_le ((ys @ xs) ! k) ((ys @ xs) ! argmax_from xs i mp best)) \<and>
         (\<forall>k < argmax_from xs i mp best.
            f64_lt ((ys @ xs) ! k) ((ys @ xs) ! argmax_from xs i mp best))"
  using assms
proof (induction xs arbitrary: ys i mp best)
  case Nil
  then show ?case by simp
next
  case (Cons x xs)
  from Cons.prems have mp: "mp \<noteq> NaN" and x: "x \<noteq> NaN" by auto
  have app: "ys @ x # xs = (ys @ [x]) @ xs" by simp
  show ?case
  proof (cases "f64_le x mp")
    case True
    have "argmax_from xs (Suc i) mp best < length ((ys @ [x]) @ xs) \<and>
         (\<forall>k < length ((ys @ [x]) @ xs).
            f64_le (((ys @ [x]) @ xs) ! k) (((ys @ [x]) @ xs) ! argmax_from xs (Suc i) mp best)) \<and>
         (\<forall>k < argmax_from xs (Suc i) mp best.
            f64_lt (((ys @ [x]) @ xs) ! k) (((ys @ [x]) @ xs) ! argmax_from xs (Suc i) mp best))"
    proof (rule Cons.IH)
      show "\<forall>v \<in> set ((ys @ [x]) @ xs). v \<noteq> NaN" using Cons.prems(1) by simp
      show "Suc i = length (ys @ [x])" using Cons.prems(2) by simp
      show "best < Suc i" using Cons.prems(3) by simp
      show "mp = (ys @ [x]) ! best" using Cons.prems(2,3,4) by (simp add: nth_append)
      show "\<forall>k < Suc i. f64_le ((ys @ [x]) ! k) mp"
        using Cons.prems(2,5) True by (auto simp: nth_append less_Suc_eq)
      show "\<forall>k < best. f64_lt ((ys @ [x]) ! k) mp"
        using Cons.prems(2,3,6) by (auto simp: nth_append)
    qed
    with True mp show ?thesis unfolding app by simp
  next
    case False
    with mp x have lt: "f64_lt mp x" by (simp add: f64_not_le)
    have "argmax_from xs (Suc i) x i < length ((ys @ [x]) @ xs) \<and>
         (\<forall>k < length ((ys @ [x]) @ xs).
            f64_le (((ys @ [x]) @ xs) ! k) (((ys @ [x]) @ xs) ! argmax_from xs (Suc i) x i)) \<and>
         (\<forall>k < argmax_from xs (Suc i) x i.
            f64_lt (((ys @ [x]) @ xs) ! k) (((ys @ [x]) @ xs) ! argmax_from xs (Suc i) x i))"
    proof (rule Cons.IH)
      show "\<forall>v \<in> set ((ys @ [x]) @ xs). v \<noteq> NaN" using Cons.prems(1) by simp
      show "Suc i = length (ys @ [x])" using Cons.prems(2) by simp
      show "i < Suc i" by simp
      show "x = (ys @ [x]) ! i" using Cons.prems(2) by simp
      have below: "f64_lt (ys ! k) x" if "k < i" for k
        using Cons.prems(5) that lt f64_le_lt_trans by blast
      show "\<forall>k < Suc i. f64_le ((ys @ [x]) ! k) x"
        using Cons.prems(2) below x
        by (auto simp: nth_append less_Suc_eq f64_le_refl f64_lt_le)
      show "\<forall>k < i. f64_lt ((ys @ [x]) ! k) x"
        using Cons.prems(2) below by (auto simp: nth_append)
    qed
    with False mp show ?thesis unfolding app by simp
  qed
qed

lemma argmax_first_max:
  assumes "xs \<noteq> []" and "\<forall>v \<in> set xs. v \<noteq> NaN"
  shows "\<exists>j. argmax xs = Inr j \<and> j < length xs \<and>
           (\<forall>k < length xs. f64_le (xs ! k) (xs ! j)) \<and> (\<forall>k < j. f64_lt (xs ! k) (xs ! j))"
proof -
  from assms(1) obtain x rest where xs: "xs = x # rest" by (cases xs) auto
  from assms(2) xs have x: "x \<noteq> NaN" by simp
  have "argmax_from rest 1 x 0 < length ([x] @ rest) \<and>
         (\<forall>k < length ([x] @ rest).
            f64_le (([x] @ rest) ! k) (([x] @ rest) ! argmax_from rest 1 x 0)) \<and>
         (\<forall>k < argmax_from rest 1 x 0.
            f64_lt (([x] @ rest) ! k) (([x] @ rest) ! argmax_from rest 1 x 0))"
  proof (rule argmax_from_max)
    show "\<forall>v \<in> set ([x] @ rest). v \<noteq> NaN" using assms(2) xs by simp
    show "\<forall>k < 1. f64_le ([x] ! k) x" using x by (simp add: f64_le_refl)
  qed simp_all
  then show ?thesis unfolding xs by simp
qed

lemma argmax_from_bound: "best < i \<Longrightarrow> argmax_from ys i mp best < i + length ys"
proof (induction ys arbitrary: i mp best)
  case Nil
  then show ?case by simp
next
  case (Cons y ys)
  have new: "argmax_from ys (Suc i) y i < Suc i + length ys"
    by (rule Cons.IH) simp
  have old: "argmax_from ys (Suc i) mp best < Suc i + length ys"
    by (rule Cons.IH) (use Cons.prems in simp)
  from new old Cons.prems show ?case by simp
qed

lemma argmax_in_range: "xs \<noteq> [] \<Longrightarrow> \<exists>j. argmax xs = Inr j \<and> j < length xs"
proof -
  assume "xs \<noteq> []"
  then obtain x rest where xs: "xs = x # rest" by (cases xs) auto
  from argmax_from_bound [of 0 1 rest x] show ?thesis unfolding xs by simp
qed


lemma bool_index_columns:
  "bool_index (map g rs) (map p rs) = Inr (map g (filter p rs))"
  by (induction rs) (simp_all add: bool_index_def)

lemma bool_index_matching:
  "bool_index (map g alns) (map (\<lambda>i. i = fastq_id) (map aln_id alns)) =
     Inr (map g (matching fastq_id alns))"
proof -
  have "map (\<lambda>i. i = fastq_id) (map aln_id alns) = map (\<lambda>r. aln_id r = fastq_id) alns"
    by simp
  then show ?thesis by (simp only: bool_index_columns matching_def)
qed

lemma int_of_f64_whole:
  "- (2 ^ 63) \<le> k \<Longrightarrow> k < 2 ^ 63 \<Longrightarrow> int_of_f64 (Fin (real_of_int k)) = Inr k"
  by simp

lemma chosen_none: "chosen [] NaN (- 1)"
  by (simp add: chosen_def)

lemma chosen_one: "length m = 1 \<Longrightarrow> chosen m (aln_accuracy (m ! 0)) (aln_len (m ! 0))"
  by (cases m) (auto simp: chosen_def)

lemma chosen_several:
  assumes "2 \<le> length m" and "argmax (map aln_accuracy m) = Inr loc"
  shows "chosen m (aln_accuracy (m ! loc)) (aln_len (m ! loc))"
proof -
  have "\<exists>j < length m. aln_accuracy (m ! loc) = aln_accuracy (m ! j) \<and>
          aln_len (m ! loc) = aln_len (m ! j) \<and>
          (\<forall>i < length m. f64_le (aln_accuracy (m ! i)) (aln_accuracy (m ! j))) \<and>
          (\<forall>i < j. f64_lt (aln_accuracy (m ! i)) (aln_accuracy (m ! j)))"
    if clean: "\<forall>r \<in> set m. aln_accuracy r \<noteq> NaN"
  proof -
    from assms(1) have ne: "map aln_accuracy m \<noteq> []" by auto
    from clean have "\<forall>v \<in> set (map aln_accuracy m). v \<noteq> NaN" by auto
    from argmax_first_max [OF ne this] assms(2)
    have loc: "loc < length m"
      and le: "\<forall>k < length m. f64_le (map aln_accuracy m ! k) (map aln_accuracy m ! loc)"
      and lt: "\<forall>k < loc. f64_lt (map aln_accuracy m ! k) (map aln_accuracy m ! loc)"
      by auto
    from loc le have le': "\<forall>i < length m. f64_le (aln_accuracy (m ! i)) (aln_accuracy (m ! loc))"
      by auto
    from loc lt have lt': "\<forall>i < loc. f64_lt (aln_accuracy (m ! i)) (aln_accuracy (m ! loc))"
      by auto
    from loc le' lt' show ?thesis by blast
  qed
  with assms(1) show ?thesis by (auto simp: chosen_def)
qed

lemma merge_loop_read:
  fixes alns :: "alignment list"
  defines "ids \<equiv> map aln_id alns"
    and "accs \<equiv> map aln_accuracy alns"
    and "lens \<equiv> map (\<lambda>r. Fin (real_of_int (aln_len r))) alns"
  assumes range: "\<forall>r \<in> set alns. - (2 ^ 63) \<le> aln_len r \<and> aln_len r < 2 ^ 63"
  shows "(matching fid alns = [] \<and>
          merge_loop (fid # rest) nread ids accs lens (fa, fl, nf, mt) =
          merge_loop rest (Suc nread) ids accs lens (fa, fl, Suc nf, mt)) \<or>
         (\<exists>a l. matching fid alns \<noteq> [] \<and> chosen (matching fid alns) a l \<and>
          merge_loop (fid # rest) nread ids accs lens (fa, fl, nf, mt) =
          merge_loop rest (Suc nread) ids accs lens
            (fa[nread := a], fl[nread := l], nf,
             if 2 \<le> length (matching fid alns) then Suc mt else mt))"
proof -
  let ?m = "matching fid alns"
  have sel: "bool_index accs (map (\<lambda>i. i = fid) ids) = Inr (map aln_accuracy ?m)"
    "bool_index lens (map (\<lambda>i. i = fid) ids)
       = Inr (map (\<lambda>r. Fin (real_of_int (aln_len r))) ?m)"
    unfolding ids_def accs_def lens_def by (rule bool_index_matching)+
  have whole: "int_of_f64 (Fin (real_of_int (aln_len (?m ! k)))) = Inr (aln_len (?m ! k))"
    if "k < length ?m" for k
  proof -
    from that have "?m ! k \<in> set ?m" by simp
    then have "?m ! k \<in> set alns" by (simp add: matching_def)
    with range show ?thesis by (intro int_of_f64_whole) auto
  qed
  consider (none) "?m = []" | (one) "length ?m = 1" | (several) "2 \<le> length ?m"
    by (cases ?m) (auto simp: Suc_le_eq)
  then show ?thesis
  proof cases
    case none
    then show ?thesis by (simp add: sel ebind_def)
  next
    case one
    then have ne: "?m \<noteq> []" by auto
    from one ne have "merge_loop (fid # rest) nread ids accs lens (fa, fl, nf, mt) =
          merge_loop rest (Suc nread) ids accs lens
            (fa[nread := aln_accuracy (?m ! 0)], fl[nread := aln_len (?m ! 0)], nf, mt)"
      by (simp add: sel ebind_def whole del: int_of_f64.simps)
    with one ne chosen_one [OF one] show ?thesis by auto
  next
    case several
    then have ne: "?m \<noteq> []" by auto
    then have "map aln_accuracy ?m \<noteq> []" by simp
    from argmax_in_range [OF this] obtain loc
      where loc: "argmax (map aln_accuracy ?m) = Inr loc" "loc < length ?m" by auto
    from several ne loc have "merge_loop (fid # rest) nread ids accs lens (fa, fl, nf, mt) =
          merge_loop rest (Suc nread) ids accs lens
            (fa[nread := aln_accuracy (?m ! loc)], fl[nread := aln_len (?m ! loc)], nf, Suc mt)"
      by (simp add: sel ebind_def whole del: int_of_f64.simps)
    with several ne chosen_several [OF several loc(1)] show ?thesis by auto
  qed
qed


lemma merge_loop_columns:
  fixes alns :: "alignment list"
  defines "ids \<equiv> map aln_id alns"
    and "accs \<equiv> map aln_accuracy alns"
    and "lens \<equiv> map (\<lambda>r. Fin (real_of_int (aln_len r))) alns"
  assumes "length fa = n" and "length fl = n" and "nread + length fids = n"
    and "\<forall>k. nread \<le> k \<and> k < n \<longrightarrow> fa ! k = NaN \<and> fl ! k = - 1"
    and range: "\<forall>r \<in> set alns. - (2 ^ 63) \<le> aln_len r \<and> aln_len r < 2 ^ 63"
  shows "\<exists>fa' fl'.
           merge_loop fids nread ids accs lens (fa, fl, nf, mt) =
             Inr (fa', fl', nf + length (filter (\<lambda>i. matching i alns = []) fids),
                  mt + length (filter (\<lambda>i. 2 \<le> length (matching i alns)) fids)) \<and>
           length fa' = n \<and> length fl' = n \<and>
           (\<forall>k < nread. fa' ! k = fa ! k \<and> fl' ! k = fl ! k) \<and>
           (\<forall>k < length fids.
              chosen (matching (fids ! k) alns) (fa' ! (nread + k)) (fl' ! (nread + k)))"
  using assms(4-7)
proof (induction fids arbitrary: nread fa fl nf mt)
  case Nil
  then show ?case by simp
next
  case (Cons fid rest)
  let ?m = "matching fid alns"
  from Cons.prems have nread: "nread < n" by simp
  from merge_loop_read [OF range, where fid = fid and rest = rest and nread = nread
      and fa = fa and fl = fl and nf = nf and mt = mt]
  consider (none) "?m = []"
      "merge_loop (fid # rest) nread ids accs lens (fa, fl, nf, mt) =
       merge_loop rest (Suc nread) ids accs lens (fa, fl, Suc nf, mt)"
    | (some) a l where "?m \<noteq> []" "chosen ?m a l"
      "merge_loop (fid # rest) nread ids accs lens (fa, fl, nf, mt) =
       merge_loop rest (Suc nread) ids accs lens
         (fa[nread := a], fl[nread := l], nf, if 2 \<le> length ?m then Suc mt else mt)"
    unfolding ids_def accs_def lens_def by blast
  then show ?case
  proof cases
    case none
    have "\<exists>fa' fl'.
           merge_loop rest (Suc nread) ids accs lens (fa, fl, Suc nf, mt) =
             Inr (fa', fl', Suc nf + length (filter (\<lambda>i. matching i alns = []) rest),
                  mt + length (filter (\<lambda>i. 2 \<le> length (matching i alns)) rest)) \<and>
           length fa' = n \<and> length fl' = n \<and>
           (\<forall>k < Suc nread. fa' ! k = fa ! k \<and> fl' ! k = fl ! k) \<and>
           (\<forall>k < length rest.
              chosen (matching (rest ! k) alns) (fa' ! (Suc nread + k)) (fl' ! (Suc nread + k)))"
      by (rule Cons.IH) (use Cons.prems in auto)
    then obtain fa' fl' where run:
        "merge_loop rest (Suc nread) ids accs lens (fa, fl, Suc nf, mt) =
             Inr (fa', fl', Suc nf + length (filter (\<lambda>i. matching i alns = []) rest),
                  mt + length (filter (\<lambda>i. 2 \<le> length (matching i alns)) rest))"
      and len: "length fa' = n" "length fl' = n"
      and kept: "\<forall>k < Suc nread. fa' ! k = fa ! k \<and> fl' ! k = fl ! k"
      and later: "\<forall>k < length rest.
              chosen (matching (rest ! k) alns) (fa' ! (Suc nread + k)) (fl' ! (Suc nread + k))"
      by blast
    from kept Cons.prems(4) nread have "fa' ! nread = NaN" "fl' ! nread = - 1" by auto
    with none(1) have here: "chosen ?m (fa' ! nread) (fl' ! nread)"
      by (simp add: chosen_none)
    have each: "chosen (matching ((fid # rest) ! k) alns) (fa' ! (nread + k)) (fl' ! (nread + k))"
      if "k < length (fid # rest)" for k
      using that here later by (cases k) auto
    from none run have "merge_loop (fid # rest) nread ids accs lens (fa, fl, nf, mt) =
             Inr (fa', fl', nf + length (filter (\<lambda>i. matching i alns = []) (fid # rest)),
                  mt + length (filter (\<lambda>i. 2 \<le> length (matching i alns)) (fid # rest)))"
      by simp
    with len kept each show ?thesis by (intro exI conjI) auto
  next
    case (some a l)
    let ?mt = "if 2 \<le> length ?m then Suc mt else mt"
    have "\<exists>fa' fl'.
           merge_loop rest (Suc nread) ids accs lens (fa[nread := a], fl[nread := l], nf, ?mt) =
             Inr (fa', fl', nf + length (filter (\<lambda>i. matching i alns = []) rest),
                  ?mt + length (filter (\<lambda>i. 2 \<le> length (matching i alns)) rest)) \<and>
           length fa' = n \<and> length fl' = n \<and>
           (\<forall>k < Suc nread. fa' ! k = fa[nread := a] ! k \<and> fl' ! k = fl[nread := l] ! k) \<and>
           (\<forall>k < length rest.
              chosen (matching (rest ! k) alns) (fa' ! (Suc nread + k)) (fl' ! (Suc nread + k)))"
      by (rule Cons.IH) (use Cons.prems in auto)
    then obtain fa' fl' where run:
        "merge_loop rest (Suc nread) ids accs lens (fa[nread := a], fl[nread := l], nf, ?mt) =
             Inr (fa', fl', nf + length (filter (\<lambda>i. matching i alns = []) rest),
                  ?mt + length (filter (\<lambda>i. 2 \<le> length (matching i alns)) rest))"
      and len: "length fa' = n" "length fl' = n"
      and kept: "\<forall>k < Suc nread. fa' ! k = fa[nread := a] ! k \<and> fl' ! k = fl[nread := l] ! k"
      and later: "\<forall>k < length rest.
              chosen (matching (rest ! k) alns) (fa' ! (Suc nread + k)) (fl' ! (Suc nread + k))"
      by blast
    from kept Cons.prems(1,2) nread have "fa' ! nread = a" "fl' ! nread = l" by auto
    with some(2) have here: "chosen ?m (fa' ! nread) (fl' ! nread)" by simp
    have each: "chosen (matching ((fid # rest) ! k) alns) (fa' ! (nread + k)) (fl' ! (nread + k))"
      if "k < length (fid # rest)" for k
      using that here later by (cases k) auto
    from kept have before: "\<forall>k < nread. fa' ! k = fa ! k \<and> fl' ! k = fl ! k" by auto
    from some(1,3) run have "merge_loop (fid # rest) nread ids accs lens (fa, fl, nf, mt) =
             Inr (fa', fl', nf + length (filter (\<lambda>i. matching i alns = []) (fid # rest)),
                  mt + length (filter (\<lambda>i. 2 \<le> length (matching i alns)) (fid # rest)))"
      by simp
    with len before each show ?thesis by (intro exI conjI) auto
  qed
qed


text \<open>
  The alignment arrays are the columns of a list of alignment records whose lengths are
  whole numbers that fit an array of integers. \<open>merge_align_fastq_data\<close> returns, for
  every fastq identifier at its place, the accuracy and length that \<open>chosen\<close>
  describes for its matching records: \<open>NaN\<close> and \<open>-1\<close> for none, the record's
  values for one, and for several records, none of them with a missing accuracy, the
  values of the first record of maximum accuracy. It also prints how many identifiers
  had no record and how many had several.
\<close>

lemma merge_align_fastq_data_chooses:
  assumes range: "\<forall>r \<in> set alns. - (2 ^ 63) \<le> aln_len r \<and> aln_len r < 2 ^ 63"
  shows "\<exists>accs lens.
     merge_align_fastq_data fastq_ids (map aln_id alns) (map aln_accuracy alns)
       (map (\<lambda>r. Fin (real_of_int (aln_len r))) alns)
     = ([Stdout [S (newline @ str_nat (length fastq_ids) @ '' reads read from fastq.''),
                 S newline],
         Stdout [S (''    '' @ str_nat (length (filter (\<lambda>i. matching i alns = []) fastq_ids))
                    @ '' not found in alignment summary.''), S newline],
         Stdout [S (''    '' @
                    str_nat (length (filter (\<lambda>i. 2 \<le> length (matching i alns)) fastq_ids))
                    @ '' with more than one alignment.'' @ newline), S newline]],
        Inr (accs, lens))
     \<and> length accs = length fastq_ids \<and> length lens = length fastq_ids
     \<and> (\<forall>k < length fastq_ids.
          chosen (matching (fastq_ids ! k) alns) (accs ! k) (lens ! k))"
proof -
  let ?n = "length fastq_ids"
  have "\<exists>fa' fl'.
           merge_loop fastq_ids 0 (map aln_id alns) (map aln_accuracy alns)
             (map (\<lambda>r. Fin (real_of_int (aln_len r))) alns)
             (replicate ?n NaN, replicate ?n (- 1), 0, 0) =
             Inr (fa', fl', 0 + length (filter (\<lambda>i. matching i alns = []) fastq_ids),
                  0 + length (filter (\<lambda>i. 2 \<le> length (matching i alns)) fastq_ids)) \<and>
           length fa' = ?n \<and> length fl' = ?n \<and>
           (\<forall>k < 0. fa' ! k = replicate ?n NaN ! k \<and> fl' ! k = replicate ?n (- 1) ! k) \<and>
           (\<forall>k < length fastq_ids.
              chosen (matching (fastq_ids ! k) alns) (fa' ! (0 + k)) (fl' ! (0 + k)))"
    by (rule merge_loop_columns) (use range in simp_all)
  then obtain fa' fl' where
    loop: "merge_loop fastq_ids 0 (map aln_id alns) (map aln_accuracy alns)
             (map (\<lambda>r. Fin (real_of_int (aln_len r))) alns)
             (replicate ?n NaN, replicate ?n (- 1), 0, 0) =
             Inr (fa', fl', length (filter (\<lambda>i. matching i alns = []) fastq_ids),
                  length (filter (\<lambda>i. 2 \<le> length (matching i alns)) fastq_ids))"
    and len: "length fa' = ?n" "length fl' = ?n"
    and each: "\<forall>k < length fastq_ids.
              chosen (matching (fastq_ids ! k) alns) (fa' ! k) (fl' ! k)"
    by auto
  from loop have "merge_align_fastq_data fastq_ids (map aln_id alns) (map aln_accuracy alns)
       (map (\<lambda>r. Fin (real_of_int (aln_len r))) alns)
     = ([Stdout [S (newline @ str_nat (length fastq_ids) @ '' reads read from fastq.''),
                 S newline],
         Stdout [S (''    '' @ str_nat (length (filter (\<lambda>i. matching i alns = []) fastq_ids))
                    @ '' not found in alignment summary.''), S newline],
         Stdout [S (''    '' @
                    str_nat (length (filter (\<lambda>i. 2 \<le> length (matching i alns)) fastq_ids))
                    @ '' with more than one alignment.'' @ newline), S newline]],
        Inr (fa', fl'))"
    by (simp add: merge_align_fastq_data_def Let_def bind_def lift_def print_def)
  with len each show ?thesis by blast
qed

text \<open>
  C5 (the code differs): a read with two alignment records, the first with a missing
  accuracy (\<open>NaN\<close>, as \<open>get_alignment_data\<close> writes a negative accuracy) and length
  100, the second with accuracy 0.9 and length 200. \<open>np.argmax\<close> returns the place of
  the \<open>NaN\<close>, so the read gets a missing accuracy and the length 100, where the
  docstring says that the most accurate alignment is chosen and that the accuracy is
  \<open>NaN\<close> where no alignment is found. For a read with no record, with one, or with
  several that all have an accuracy, the function does what the claim says
  (\<open>merge_align_fastq_data_chooses\<close>).
\<close>

theorem merge_align_fastq_data_missing_accuracy:
  "snd (merge_align_fastq_data [''read1''] [''read1'', ''read1''] [NaN, Fin 0.9]
          [Fin 100, Fin 200])
   = Inr ([NaN], [100])"
  by (simp add: merge_align_fastq_data_def Let_def bind_def lift_def print_def ebind_def
      bool_index_def f64_le_def)

subsection \<open>The filter\<close>













end
